theory Spec2Isabelle
  imports Complex_Main
begin

section \<open>Cumulative risk metrics (zipline/finance/risk/cumulative.py)\<close>

text \<open>
  A shallow embedding of \<^verbatim>\<open>RiskMetricsCumulative\<close>. Floats are modelled as real
  numbers extended by the three non-finite IEEE values; rounding, overflow and signed
  zeros are not modelled. Timestamps are counted in whole minutes since an epoch, the
  finest granularity of the time grid.
\<close>

subsection \<open>Floats\<close>

datatype pyfloat = Fin real | NaN | PosInf | NegInf

text \<open>
  The exceptions that the module can raise. \<open>Mismatch\<close> is the \<^verbatim>\<open>Exception\<close> of
  line 197, \<open>TreasuryFailure\<close> an exception of the treasury curve source; the
  messages are not modelled.
\<close>

datatype exn =
    KeyError
  | IndexError
  | ValueError
  | TypeError
  | ZeroDivisionError
  | AttributeError string
  | Mismatch
  | TreasuryFailure
  | UnboundLocalError

fun isnan :: "pyfloat \<Rightarrow> bool" where
  "isnan NaN = True"
| "isnan _ = False"

fun fneg :: "pyfloat \<Rightarrow> pyfloat" where
  "fneg (Fin a) = Fin (- a)"
| "fneg NaN = NaN"
| "fneg PosInf = NegInf"
| "fneg NegInf = PosInf"

fun fadd :: "pyfloat \<Rightarrow> pyfloat \<Rightarrow> pyfloat" where
  "fadd (Fin a) (Fin b) = Fin (a + b)"
| "fadd NaN _ = NaN"
| "fadd _ NaN = NaN"
| "fadd PosInf NegInf = NaN"
| "fadd NegInf PosInf = NaN"
| "fadd PosInf _ = PosInf"
| "fadd _ PosInf = PosInf"
| "fadd NegInf _ = NegInf"
| "fadd _ NegInf = NegInf"

definition fsub :: "pyfloat \<Rightarrow> pyfloat \<Rightarrow> pyfloat" where
  "fsub x y = fadd x (fneg y)"

text \<open>The sign of a non-NaN float: \<open>True\<close> for a positive one.\<close>

fun fpositive :: "pyfloat \<Rightarrow> bool" where
  "fpositive (Fin a) = (0 < a)"
| "fpositive PosInf = True"
| "fpositive _ = False"

fun signed_inf :: "bool \<Rightarrow> pyfloat" where
  "signed_inf True = PosInf"
| "signed_inf False = NegInf"

fun fmul :: "pyfloat \<Rightarrow> pyfloat \<Rightarrow> pyfloat" where
  "fmul (Fin a) (Fin b) = Fin (a * b)"
| "fmul NaN _ = NaN"
| "fmul _ NaN = NaN"
| "fmul x y =
     (if x = Fin 0 \<or> y = Fin 0 then NaN
      else signed_inf (fpositive x = fpositive y))"

text \<open>Division of numpy floats: dividing by zero gives an infinity or NaN, it never raises.\<close>

fun np_divide :: "pyfloat \<Rightarrow> pyfloat \<Rightarrow> pyfloat" where
  "np_divide (Fin a) (Fin b) =
     (if b = 0 then (if a = 0 then NaN else signed_inf (0 < a)) else Fin (a / b))"
| "np_divide NaN _ = NaN"
| "np_divide _ NaN = NaN"
| "np_divide (Fin a) _ = Fin 0"
| "np_divide x (Fin b) = signed_inf (fpositive x = (0 \<le> b))"
| "np_divide _ _ = NaN"

text \<open>Division of Python floats: dividing by zero raises.\<close>

definition py_truediv :: "pyfloat \<Rightarrow> pyfloat \<Rightarrow> exn + pyfloat" where
  "py_truediv x y = (if y = Fin 0 then Inl ZeroDivisionError else Inr (np_divide x y))"

fun flt :: "pyfloat \<Rightarrow> pyfloat \<Rightarrow> bool" where
  "flt (Fin a) (Fin b) = (a < b)"
| "flt NaN _ = False"
| "flt _ NaN = False"
| "flt NegInf NegInf = False"
| "flt NegInf _ = True"
| "flt PosInf _ = False"
| "flt _ PosInf = True"
| "flt _ NegInf = False"

fun fsqrt :: "pyfloat \<Rightarrow> pyfloat" where
  "fsqrt (Fin a) = (if a < 0 then NaN else Fin (sqrt a))"
| "fsqrt PosInf = PosInf"
| "fsqrt _ = NaN"

text \<open>\<^verbatim>\<open>math.exp\<close>\<close>

fun math_exp :: "pyfloat \<Rightarrow> pyfloat" where
  "math_exp (Fin a) = Fin (exp a)"
| "math_exp NaN = NaN"
| "math_exp PosInf = PosInf"
| "math_exp NegInf = Fin 0"

text \<open>\<^verbatim>\<open>math.log\<close> raises \<^verbatim>\<open>ValueError\<close> outside its domain.\<close>

fun math_log :: "pyfloat \<Rightarrow> exn + pyfloat" where
  "math_log (Fin a) = (if a \<le> 0 then Inl ValueError else Inr (Fin (ln a)))"
| "math_log NaN = Inr NaN"
| "math_log PosInf = Inr PosInf"
| "math_log NegInf = Inl ValueError"

definition fsum :: "pyfloat list \<Rightarrow> pyfloat" where
  "fsum xs = foldl fadd (Fin 0) xs"

definition fprod :: "pyfloat list \<Rightarrow> pyfloat" where
  "fprod xs = foldl fmul (Fin 1) xs"

subsection \<open>numpy statistics\<close>

text \<open>\<^verbatim>\<open>x.mean()\<close>: the sum over the count; NaN for no elements.\<close>

definition np_mean :: "pyfloat list \<Rightarrow> pyfloat" where
  "np_mean xs = np_divide (fsum xs) (Fin (real (length xs)))"

text \<open>
  \<^verbatim>\<open>np.std(a, ddof=0)\<close>: the square root of the sum of squared deviations from the
  mean, over \<^verbatim>\<open>max(N - ddof, 0)\<close>. The default of \<^verbatim>\<open>ddof\<close> is 0, also when the
  argument is a pandas Series: numpy hands its own \<^verbatim>\<open>ddof\<close> to the Series method.
\<close>

definition np_std :: "nat \<Rightarrow> pyfloat list \<Rightarrow> pyfloat" where
  "np_std ddof xs =
     (let arrmean = np_mean xs;
          x = map (\<lambda>v. fsub v arrmean) xs;
          x2 = map (\<lambda>d. fmul d d) x
      in fsqrt (np_divide (fsum x2) (Fin (real (length xs - ddof)))))"

text \<open>
  \<^verbatim>\<open>np.cov(m, ddof)\<close> for a matrix whose rows are the variables: every row is
  centred on its mean, and the result is \<^verbatim>\<open>dot(X, X.T) / (N - ddof)\<close>.
\<close>

definition dot :: "pyfloat list \<Rightarrow> pyfloat list \<Rightarrow> pyfloat" where
  "dot u v = fsum (map (\<lambda>(a, b). fmul a b) (zip u v))"

definition np_cov :: "nat \<Rightarrow> pyfloat list list \<Rightarrow> pyfloat list list" where
  "np_cov ddof m =
     (let X = map (\<lambda>row. map (\<lambda>v. fsub v (np_mean row)) row) m;
          N = (case m of [] \<Rightarrow> 0 | r # _ \<Rightarrow> length r);
          fact = Fin (real_of_int (int N - int ddof))
      in map (\<lambda>ri. map (\<lambda>rj. np_divide (dot ri rj) fact) X) X)"

subsection \<open>pandas Series\<close>

text \<open>
  A Series is its labels with their values, in index order; NaN marks a missing value.
  The labels of an index are taken to be distinct, as those of the time grid and of
  the trading calendar are.
\<close>

type_synonym series = "(nat \<times> pyfloat) list"

text \<open>\<^verbatim>\<open>pd.Series(index=idx)\<close>: every value missing.\<close>

definition new_series :: "nat list \<Rightarrow> series" where
  "new_series idx = map (\<lambda>t. (t, NaN)) idx"

definition index :: "series \<Rightarrow> nat list" where
  "index s = map fst s"

definition values_of :: "series \<Rightarrow> pyfloat list" where
  "values_of s = map snd s"

text \<open>
  \<^verbatim>\<open>s[k] = v\<close>. A label of the index is overwritten. The module does not decide what
  an absent label does, pandas does: up to pandas 0.12 the assignment raises
  \<^verbatim>\<open>KeyError\<close> (\<open>None\<close>), from pandas 0.13 on it enlarges the Series by the label, at
  the end of the index. The flag \<open>enlarges\<close> says which pandas it is.
\<close>

definition setitem :: "bool \<Rightarrow> series \<Rightarrow> nat \<Rightarrow> pyfloat \<Rightarrow> series option" where
  "setitem enlarges s k v =
     (if k \<in> set (index s)
      then Some (map (\<lambda>(l, x). if l = k then (l, v) else (l, x)) s)
      else if enlarges then Some (s @ [(k, v)])
      else None)"

text \<open>\<^verbatim>\<open>s[k]\<close> for a label; \<open>None\<close> stands for \<^verbatim>\<open>KeyError\<close>.\<close>

definition getitem :: "series \<Rightarrow> nat \<Rightarrow> pyfloat option" where
  "getitem s k = map_of s k"

text \<open>\<^verbatim>\<open>s.valid()\<close>: the entries that are not missing.\<close>

definition valid :: "series \<Rightarrow> series" where
  "valid s = filter (\<lambda>(l, x). \<not> isnan x) s"

text \<open>\<^verbatim>\<open>xs[-1]\<close>; \<open>None\<close> stands for \<^verbatim>\<open>IndexError\<close>.\<close>

definition last_item :: "'a list \<Rightarrow> 'a option" where
  "last_item xs = (if xs = [] then None else Some (last xs))"

text \<open>\<^verbatim>\<open>s.last_valid_index()\<close>\<close>

definition last_valid_index :: "series \<Rightarrow> nat option" where
  "last_valid_index s = last_item (index (valid s))"

text \<open>\<^verbatim>\<open>ts.replace(hour=0, minute=0)\<close> on a timestamp in whole minutes.\<close>

definition replace_hour_minute :: "nat \<Rightarrow> nat" where
  "replace_hour_minute t = (t div 1440) * 1440"

subsection \<open>Collaborators outside this module\<close>

text \<open>
  Modelled from the spec: \<^verbatim>\<open>zipline.utils.math_utils.tolerant_equals\<close> is not part of
  the module; the spec describes it as a tolerance-based equality check. The absolute
  and the relative tolerance are parameters. A NaN or infinite first argument is
  within tolerance of no number.
\<close>

definition tolerant_equals :: "real \<Rightarrow> real \<Rightarrow> pyfloat \<Rightarrow> real \<Rightarrow> bool" where
  "tolerant_equals atol rtol a b =
     (case a of Fin x \<Rightarrow> \<bar>x - b\<bar> \<le> atol + rtol * \<bar>b\<bar> | _ \<Rightarrow> False)"

text \<open>
  The functions imported from \<^verbatim>\<open>risk\<close> and the treasury curves are parameters:
  \<open>risk_choose_treasury\<close> is the query of the treasury curve source for a start and an
  end date (with the 10-year maturity and \<^verbatim>\<open>compound=False\<close> fixed by the partial
  application of line 38); \<open>None\<close> stands for an exception of the source. The two
  ratio helpers receive \<^verbatim>\<open>np.array\<close> of an observed view, which is \<open>None\<close> while no
  update has run. The behaviour of pandas on an assignment to an absent label is a
  parameter too: \<open>series_enlarges\<close> for the Series of the object, \<open>frame_enlarges\<close> for
  the assignment through a column of the \<^verbatim>\<open>metrics\<close> frame.
\<close>

record env =
  risk_choose_treasury :: "nat \<Rightarrow> nat \<Rightarrow> pyfloat option"
  risk_alpha :: "pyfloat \<Rightarrow> pyfloat \<Rightarrow> pyfloat \<Rightarrow> pyfloat \<Rightarrow> pyfloat"
  risk_information_ratio :: "pyfloat list option \<Rightarrow> pyfloat list option \<Rightarrow> pyfloat"
  risk_sortino_ratio :: "pyfloat list option \<Rightarrow> pyfloat \<Rightarrow> pyfloat \<Rightarrow> pyfloat"
  atol :: real
  rtol :: real
  series_enlarges :: bool
  frame_enlarges :: bool

subsection \<open>The Sharpe ratio\<close>

definition sharpe_ratio ::
  "real \<Rightarrow> real \<Rightarrow> pyfloat \<Rightarrow> pyfloat \<Rightarrow> pyfloat \<Rightarrow> exn + pyfloat" where
  "sharpe_ratio atl rtl algorithm_volatility annualized_return treasury_return =
     (if tolerant_equals atl rtl algorithm_volatility 0 then Inr NaN
      else py_truediv (fsub annualized_return treasury_return) algorithm_volatility)"

subsection \<open>The state of \<^verbatim>\<open>RiskMetricsCumulative\<close>\<close>

text \<open>
  One field per attribute. The three columns of the \<^verbatim>\<open>metrics\<close> DataFrame are three
  Series over the time grid. \<open>treasury_queries\<close> is not an attribute: it logs the
  arguments of every call of the treasury curve source, as call-count instrumentation
  of a test would.
\<close>

record state =
  treasury_period_returns :: "pyfloat list"
  start_date :: nat
  end_date :: nat
  trading_days :: "nat list"
  algorithm_returns_cont :: series
  benchmark_returns_cont :: series
  annualized_mean_returns_cont :: series
  algorithm_returns :: "series option"
  benchmark_returns :: "series option"
  annualized_mean_returns :: "series option"
  num_trading_days :: "nat option"
  compounded_log_returns :: "pyfloat list"
  algorithm_volatility :: "pyfloat list"
  benchmark_volatility :: "pyfloat list"
  algorithm_period_returns :: "pyfloat list"
  benchmark_period_returns :: "pyfloat list"
  latest_dt :: nat
  metrics_alpha :: series
  metrics_beta :: series
  metrics_sharpe :: series
  sortino :: "pyfloat list"
  information :: "pyfloat list"
  max_drawdown :: pyfloat
  current_max :: pyfloat
  excess_returns :: "pyfloat list"
  daily_treasury :: series
  treasury_period_return :: "pyfloat option"
  treasury_queries :: "(nat \<times> nat) list"

text \<open>The simulation parameters and the trading calendar that \<^verbatim>\<open>__init__\<close> reads.\<close>

record sim_params =
  period_start :: nat
  period_end :: nat
  emission_rate :: string
  first_open :: nat
  last_close :: nat

definition get_minute_index :: "sim_params \<Rightarrow> nat list" where
  "get_minute_index sp = [first_open sp ..< Suc (last_close sp)]"

text \<open>
  \<^verbatim>\<open>__init__\<close>; \<open>all_trading_days\<close> is \<^verbatim>\<open>trading.environment.trading_days\<close>. A
  frequency that is neither \<^verbatim>\<open>'daily'\<close> nor \<^verbatim>\<open>'minute'\<close> leaves \<^verbatim>\<open>cont_index\<close>
  unbound, and an empty grid has no first element.
\<close>

definition init :: "nat list \<Rightarrow> sim_params \<Rightarrow> string option \<Rightarrow> exn + state" where
  "init all_trading_days sp returns_frequency =
     (let start = replace_hour_minute (period_start sp);
          endd = replace_hour_minute (period_end sp);
          masked = filter (\<lambda>d. start \<le> d \<and> d \<le> endd) all_trading_days;
          days = (if period_end sp \<notin> set masked then masked @ [period_end sp] else masked);
          freq = (case returns_frequency of None \<Rightarrow> emission_rate sp | Some f \<Rightarrow> f)
      in if freq \<noteq> ''daily'' \<and> freq \<noteq> ''minute'' then Inl UnboundLocalError
         else
           let cont_index = (if freq = ''daily'' then days else get_minute_index sp)
           in case cont_index of
                [] \<Rightarrow> Inl IndexError
              | t0 # _ \<Rightarrow>
                  Inr \<lparr> treasury_period_returns = [],
                        start_date = start,
                        end_date = endd,
                        trading_days = days,
                        algorithm_returns_cont = new_series cont_index,
                        benchmark_returns_cont = new_series cont_index,
                        annualized_mean_returns_cont = new_series cont_index,
                        algorithm_returns = None,
                        benchmark_returns = None,
                        annualized_mean_returns = None,
                        num_trading_days = None,
                        compounded_log_returns = [],
                        algorithm_volatility = [],
                        benchmark_volatility = [],
                        algorithm_period_returns = [],
                        benchmark_period_returns = [],
                        latest_dt = t0,
                        metrics_alpha = new_series cont_index,
                        metrics_beta = new_series cont_index,
                        metrics_sharpe = new_series cont_index,
                        sortino = [],
                        information = [],
                        max_drawdown = Fin 0,
                        current_max = NegInf,
                        excess_returns = [],
                        daily_treasury = new_series days,
                        treasury_period_return = None,
                        treasury_queries = [] \<rparr>)"

subsection \<open>The methods\<close>

text \<open>
  A method that mutates the object returns the exception it raised, if any, with the
  state as the method left it. While no update has run, the observed views are
  \<^verbatim>\<open>None\<close>, and reading one as a Series raises; \<^verbatim>\<open>np.array\<close> of one does not.
\<close>

definition update_compounded_log_returns :: "state \<Rightarrow> exn option \<times> state" where
  "update_compounded_log_returns s =
     (case algorithm_returns s of
        None \<Rightarrow> (Some TypeError, s)
      | Some a \<Rightarrow>
          if length a = 0 then (None, s)
          else
            (case last_valid_index a of
               None \<Rightarrow> (Some KeyError, s)
             | Some k \<Rightarrow>
                 (case getitem a k of
                    None \<Rightarrow> (Some KeyError, s)
                  | Some r \<Rightarrow>
                      let compound =
                            (case math_log (fadd (Fin 1) r) of
                               Inr c \<Rightarrow> c
                             | Inl e \<Rightarrow> Fin 0)
                      in if length (compounded_log_returns s) = 0
                         then (None, s\<lparr>compounded_log_returns :=
                                 compounded_log_returns s @ [compound]\<rparr>)
                         else (None, s\<lparr>compounded_log_returns :=
                                 compounded_log_returns s @
                                   [fadd (last (compounded_log_returns s)) compound]\<rparr>))))"

definition calculate_period_returns :: "series \<Rightarrow> pyfloat" where
  "calculate_period_returns returns =
     fsub (fprod (map (\<lambda>r. fadd (Fin 1) r) (values_of returns))) (Fin 1)"

definition update_current_max :: "state \<Rightarrow> state" where
  "update_current_max s =
     (if length (compounded_log_returns s) = 0 then s
      else if flt (current_max s) (last (compounded_log_returns s))
      then s\<lparr>current_max := last (compounded_log_returns s)\<rparr>
      else s)"

definition calculate_max_drawdown :: "state \<Rightarrow> pyfloat" where
  "calculate_max_drawdown s =
     (if length (compounded_log_returns s) = 0 then max_drawdown s
      else
        let cur_drawdown =
              fsub (Fin 1)
                (math_exp (fsub (last (compounded_log_returns s)) (current_max s)))
        in if flt (max_drawdown s) cur_drawdown then cur_drawdown else max_drawdown s)"

definition calculate_sharpe :: "env \<Rightarrow> state \<Rightarrow> exn + pyfloat" where
  "calculate_sharpe e s =
     (case last_item (algorithm_volatility s) of
        None \<Rightarrow> Inl IndexError
      | Some vol \<Rightarrow>
          (case annualized_mean_returns s of
             None \<Rightarrow> Inl TypeError
           | Some am \<Rightarrow>
               (case last_item (values_of am) of
                  None \<Rightarrow> Inl IndexError
                | Some ann \<Rightarrow>
                    (case last_item (values_of (valid (daily_treasury s))) of
                       None \<Rightarrow> Inl IndexError
                     | Some tr \<Rightarrow> sharpe_ratio (atol e) (rtol e) vol ann tr))))"

definition calculate_sortino :: "env \<Rightarrow> state \<Rightarrow> exn + pyfloat" where
  "calculate_sortino e s =
     (case treasury_period_return s of
        None \<Rightarrow> Inl (AttributeError ''treasury_period_return'')
      | Some mar \<Rightarrow>
          (case last_item (algorithm_period_returns s) of
             None \<Rightarrow> Inl IndexError
           | Some apr \<Rightarrow>
               Inr (risk_sortino_ratio e (map_option values_of (algorithm_returns s)) apr mar)))"

definition calculate_information :: "env \<Rightarrow> state \<Rightarrow> exn + pyfloat" where
  "calculate_information e s =
     Inr (risk_information_ratio e (map_option values_of (algorithm_returns s))
            (map_option values_of (benchmark_returns s)))"

definition calculate_alpha :: "env \<Rightarrow> nat \<Rightarrow> state \<Rightarrow> exn + pyfloat" where
  "calculate_alpha e dt s =
     (case last_item (algorithm_period_returns s) of
        None \<Rightarrow> Inl IndexError
      | Some apr \<Rightarrow>
          (case treasury_period_return s of
             None \<Rightarrow> Inl (AttributeError ''treasury_period_return'')
           | Some tpr \<Rightarrow>
               (case last_item (benchmark_period_returns s) of
                  None \<Rightarrow> Inl IndexError
                | Some bpr \<Rightarrow>
                    (case getitem (metrics_beta s) dt of
                       None \<Rightarrow> Inl KeyError
                     | Some beta \<Rightarrow> Inr (risk_alpha e apr tpr bpr beta)))))"

definition calculate_volatility :: "series \<Rightarrow> pyfloat" where
  "calculate_volatility daily_returns =
     fmul (np_std 0 (values_of daily_returns)) (fsqrt (Fin 252))"

definition calculate_beta :: "state \<Rightarrow> exn + pyfloat" where
  "calculate_beta s =
     (case algorithm_returns s of
        None \<Rightarrow> Inl TypeError
      | Some a \<Rightarrow>
          if length a < 2 then Inr (Fin 0)
          else
            (case benchmark_returns s of
               None \<Rightarrow> Inl ValueError
             | Some b \<Rightarrow>
                 if length a \<noteq> length b then Inl ValueError
                 else
                   let returns_matrix = [values_of a, values_of b];
                       C = np_cov 1 returns_matrix;
                       algorithm_covariance = C ! 0 ! 1;
                       benchmark_variance = C ! 1 ! 1
                   in Inr (np_divide algorithm_covariance benchmark_variance)))"

subsection \<open>\<^verbatim>\<open>update\<close>\<close>

text \<open>Sequencing: an exception ends the method with the state reached so far.\<close>

definition then_do ::
  "exn option \<times> state \<Rightarrow> (state \<Rightarrow> exn option \<times> state) \<Rightarrow> exn option \<times> state" where
  "then_do r f = (case r of (Some ex, s) \<Rightarrow> (Some ex, s) | (None, s) \<Rightarrow> f s)"

text \<open>Lines 162 to 176: the three writes at \<^verbatim>\<open>dt\<close> and the observed views.\<close>

definition record_returns :: "env \<Rightarrow> nat \<Rightarrow> pyfloat \<Rightarrow> pyfloat \<Rightarrow> state \<Rightarrow> exn option \<times> state" where
  "record_returns e dt algo_ret bench_ret s =
     (case setitem (series_enlarges e) (algorithm_returns_cont s) dt algo_ret of
        None \<Rightarrow> (Some KeyError, s)
      | Some arc \<Rightarrow>
          let s1 = s\<lparr>algorithm_returns_cont := arc, algorithm_returns := Some (valid arc)\<rparr>;
              mean_return =
                np_divide (fsum (values_of (valid arc))) (Fin (real (length (valid arc))))
          in case setitem (series_enlarges e) (annualized_mean_returns_cont s1) dt
                    (fmul mean_return (Fin 252)) of
               None \<Rightarrow> (Some KeyError, s1)
             | Some amc \<Rightarrow>
                 let s2 = s1\<lparr>annualized_mean_returns_cont := amc,
                             annualized_mean_returns := Some (valid amc)\<rparr>
                 in case setitem (series_enlarges e) (benchmark_returns_cont s2) dt bench_ret of
                      None \<Rightarrow> (Some KeyError, s2)
                    | Some brc \<Rightarrow>
                        (None, s2\<lparr>benchmark_returns_cont := brc,
                                  benchmark_returns := Some (valid brc),
                                  num_trading_days := Some (length (valid arc))\<rparr>))"

text \<open>Lines 180 to 183.\<close>

definition append_period_returns :: "state \<Rightarrow> exn option \<times> state" where
  "append_period_returns s =
     (case algorithm_returns s of
        None \<Rightarrow> (Some TypeError, s)
      | Some a \<Rightarrow>
          let s1 = s\<lparr>algorithm_period_returns :=
                       algorithm_period_returns s @ [calculate_period_returns a]\<rparr>
          in case benchmark_returns s1 of
               None \<Rightarrow> (Some TypeError, s1)
             | Some b \<Rightarrow>
                 (None, s1\<lparr>benchmark_period_returns :=
                             benchmark_period_returns s1 @ [calculate_period_returns b]\<rparr>))"

text \<open>Lines 185 to 197: the two observed views must have the same index.\<close>

definition check_index :: "state \<Rightarrow> exn option \<times> state" where
  "check_index s =
     (case algorithm_returns s of
        None \<Rightarrow> (Some (AttributeError ''index''), s)
      | Some a \<Rightarrow>
          (case benchmark_returns s of
             None \<Rightarrow> (Some (AttributeError ''index''), s)
           | Some b \<Rightarrow> if index a \<noteq> index b then (Some Mismatch, s) else (None, s)))"

text \<open>Lines 199 to 203.\<close>

definition append_volatility :: "state \<Rightarrow> exn option \<times> state" where
  "append_volatility s =
     (let s1 = update_current_max s
      in case benchmark_returns s1 of
           None \<Rightarrow> (Some TypeError, s1)
         | Some b \<Rightarrow>
             let s2 = s1\<lparr>benchmark_volatility :=
                          benchmark_volatility s1 @ [calculate_volatility b]\<rparr>
             in case algorithm_returns s2 of
                  None \<Rightarrow> (Some TypeError, s2)
                | Some a \<Rightarrow>
                    (None, s2\<lparr>algorithm_volatility :=
                                algorithm_volatility s2 @ [calculate_volatility a]\<rparr>))"

text \<open>
  Lines 208 to 217: the treasury cache. The key is the last observed timestamp with
  hour and minute reset; the curve source is asked only when the cached value is NaN.
\<close>

definition lookup_treasury :: "env \<Rightarrow> state \<Rightarrow> exn option \<times> state" where
  "lookup_treasury e s =
     (case algorithm_returns s of
        None \<Rightarrow> (Some (AttributeError ''index''), s)
      | Some a \<Rightarrow>
          (case last_item (index a) of
             None \<Rightarrow> (Some IndexError, s)
           | Some last_dt \<Rightarrow>
               let treasury_end = replace_hour_minute last_dt
               in case getitem (daily_treasury s) treasury_end of
                    None \<Rightarrow> (Some KeyError, s)
                  | Some cached \<Rightarrow>
                      if isnan cached then
                        let s1 = s\<lparr>treasury_queries :=
                                     treasury_queries s @ [(start_date s, last_dt)]\<rparr>
                        in case risk_choose_treasury e (start_date s) last_dt of
                             None \<Rightarrow> (Some TreasuryFailure, s1)
                           | Some tpr \<Rightarrow>
                               (case setitem (series_enlarges e) (daily_treasury s1) treasury_end tpr of
                                  None \<Rightarrow> (Some KeyError, s1)
                                | Some dtr \<Rightarrow> (None, s1\<lparr>daily_treasury := dtr\<rparr>))
                      else (None, s)))"

text \<open>Lines 218 to 222.\<close>

definition append_treasury :: "state \<Rightarrow> exn option \<times> state" where
  "append_treasury s =
     (case algorithm_returns s of
        None \<Rightarrow> (Some (AttributeError ''index''), s)
      | Some a \<Rightarrow>
          (case last_item (index a) of
             None \<Rightarrow> (Some IndexError, s)
           | Some last_dt \<Rightarrow>
               (case getitem (daily_treasury s) (replace_hour_minute last_dt) of
                  None \<Rightarrow> (Some KeyError, s)
                | Some tpr \<Rightarrow>
                    let s1 = s\<lparr>treasury_period_return := Some tpr\<rparr>;
                        s2 = s1\<lparr>treasury_period_returns := treasury_period_returns s1 @ [tpr]\<rparr>
                    in case last_item (algorithm_period_returns s2) of
                         None \<Rightarrow> (Some IndexError, s2)
                       | Some apr \<Rightarrow>
                           (None, s2\<lparr>excess_returns :=
                                       excess_returns s2 @ [fsub apr tpr]\<rparr>))))"

text \<open>Lines 223 to 232.\<close>

definition update_metrics :: "env \<Rightarrow> nat \<Rightarrow> state \<Rightarrow> exn option \<times> state" where
  "update_metrics e dt s =
     (case calculate_beta s of
        Inl ex \<Rightarrow> (Some ex, s)
      | Inr beta \<Rightarrow>
     (case setitem (frame_enlarges e) (metrics_beta s) dt beta of
        None \<Rightarrow> (Some KeyError, s)
      | Some mb \<Rightarrow>
     let s1 = s\<lparr>metrics_beta := mb\<rparr> in
     (case calculate_alpha e dt s1 of
        Inl ex \<Rightarrow> (Some ex, s1)
      | Inr alpha \<Rightarrow>
     (case setitem (frame_enlarges e) (metrics_alpha s1) dt alpha of
        None \<Rightarrow> (Some KeyError, s1)
      | Some ma \<Rightarrow>
     let s2 = s1\<lparr>metrics_alpha := ma\<rparr> in
     (case calculate_sharpe e s2 of
        Inl ex \<Rightarrow> (Some ex, s2)
      | Inr sharpe \<Rightarrow>
     (case setitem (frame_enlarges e) (metrics_sharpe s2) dt sharpe of
        None \<Rightarrow> (Some KeyError, s2)
      | Some ms \<Rightarrow>
     let s3 = s2\<lparr>metrics_sharpe := ms\<rparr> in
     (case calculate_sortino e s3 of
        Inl ex \<Rightarrow> (Some ex, s3)
      | Inr so \<Rightarrow>
     let s4 = s3\<lparr>sortino := sortino s3 @ [so]\<rparr> in
     (case calculate_information e s4 of
        Inl ex \<Rightarrow> (Some ex, s4)
      | Inr info \<Rightarrow>
     let s5 = s4\<lparr>information := information s4 @ [info]\<rparr>;
         s6 = s5\<lparr>max_drawdown := calculate_max_drawdown s5\<rparr>
     in (None, s6\<lparr>latest_dt := dt\<rparr>)))))))))"

definition update :: "env \<Rightarrow> nat \<Rightarrow> pyfloat \<Rightarrow> pyfloat \<Rightarrow> state \<Rightarrow> exn option \<times> state" where
  "update e dt algo_ret bench_ret s =
     then_do (record_returns e dt algo_ret bench_ret s) (\<lambda>s.
     then_do (update_compounded_log_returns s) (\<lambda>s.
     then_do (append_period_returns s) (\<lambda>s.
     then_do (check_index s) (\<lambda>s.
     then_do (append_volatility s) (\<lambda>s.
     then_do (lookup_treasury e s) (\<lambda>s.
     then_do (append_treasury s) (\<lambda>s.
     update_metrics e dt s)))))))"

text \<open>
  A caller that makes the calls one after the other, whatever they raise, and a caller
  that stops at the first exception.
\<close>

type_synonym call = "nat \<times> pyfloat \<times> pyfloat"

definition updates :: "env \<Rightarrow> call list \<Rightarrow> state \<Rightarrow> state" where
  "updates e calls s = foldl (\<lambda>s (dt, a, b). snd (update e dt a b s)) s calls"

fun run :: "env \<Rightarrow> state \<Rightarrow> call list \<Rightarrow> exn option \<times> state" where
  "run e s [] = (None, s)"
| "run e s ((dt, a, b) # calls) =
     (case update e dt a b s of
        (Some ex, s') \<Rightarrow> (Some ex, s')
      | (None, s') \<Rightarrow> run e s' calls)"

text \<open>
  The lengths of the nine per-update series: the two period returns, the two
  volatilities, the treasury period returns, the excess returns, Sortino, information
  and the compounded log returns.
\<close>

definition series_lengths :: "state \<Rightarrow> nat list" where
  "series_lengths s =
     [length (algorithm_period_returns s), length (benchmark_period_returns s),
      length (algorithm_volatility s), length (benchmark_volatility s),
      length (treasury_period_returns s), length (excess_returns s),
      length (sortino s), length (information s), length (compounded_log_returns s)]"

subsection \<open>\<^verbatim>\<open>__repr__\<close>\<close>

datatype pyvalue =
    FloatVal pyfloat
  | ListVal "pyfloat list"
  | SeriesVal series
  | IndexVal "nat list"
  | NatVal nat
  | NoneVal

definition opt_series :: "series option \<Rightarrow> pyvalue" where
  "opt_series x = (case x of None \<Rightarrow> NoneVal | Some v \<Rightarrow> SeriesVal v)"

text \<open>
  \<^verbatim>\<open>getattr(self, name)\<close>: the attributes are the ones \<^verbatim>\<open>__init__\<close> and \<^verbatim>\<open>update\<close>
  assign; \<^verbatim>\<open>num_trading_days\<close> and \<^verbatim>\<open>treasury_period_return\<close> exist once
  \<^verbatim>\<open>update\<close> has assigned them. Beta, alpha and Sharpe are columns of
  \<^verbatim>\<open>self.metrics\<close>, not attributes of the object.
\<close>

definition py_getattr :: "state \<Rightarrow> string \<Rightarrow> exn + pyvalue" where
  "py_getattr s name =
     (if name = ''treasury_period_returns'' then Inr (ListVal (treasury_period_returns s))
      else if name = ''start_date'' then Inr (NatVal (start_date s))
      else if name = ''end_date'' then Inr (NatVal (end_date s))
      else if name = ''trading_days'' then Inr (IndexVal (trading_days s))
      else if name = ''algorithm_returns_cont'' then Inr (SeriesVal (algorithm_returns_cont s))
      else if name = ''benchmark_returns_cont'' then Inr (SeriesVal (benchmark_returns_cont s))
      else if name = ''annualized_mean_returns_cont''
        then Inr (SeriesVal (annualized_mean_returns_cont s))
      else if name = ''algorithm_returns'' then Inr (opt_series (algorithm_returns s))
      else if name = ''benchmark_returns'' then Inr (opt_series (benchmark_returns s))
      else if name = ''annualized_mean_returns''
        then Inr (opt_series (annualized_mean_returns s))
      else if name = ''num_trading_days'' then
        (case num_trading_days s of
           None \<Rightarrow> Inl (AttributeError name)
         | Some n \<Rightarrow> Inr (NatVal n))
      else if name = ''compounded_log_returns'' then Inr (ListVal (compounded_log_returns s))
      else if name = ''algorithm_volatility'' then Inr (ListVal (algorithm_volatility s))
      else if name = ''benchmark_volatility'' then Inr (ListVal (benchmark_volatility s))
      else if name = ''algorithm_period_returns''
        then Inr (ListVal (algorithm_period_returns s))
      else if name = ''benchmark_period_returns''
        then Inr (ListVal (benchmark_period_returns s))
      else if name = ''latest_dt'' then Inr (NatVal (latest_dt s))
      else if name = ''sortino'' then Inr (ListVal (sortino s))
      else if name = ''information'' then Inr (ListVal (information s))
      else if name = ''max_drawdown'' then Inr (FloatVal (max_drawdown s))
      else if name = ''current_max'' then Inr (FloatVal (current_max s))
      else if name = ''excess_returns'' then Inr (ListVal (excess_returns s))
      else if name = ''daily_treasury'' then Inr (SeriesVal (daily_treasury s))
      else if name = ''treasury_period_return'' then
        (case treasury_period_return s of
           None \<Rightarrow> Inl (AttributeError name)
         | Some v \<Rightarrow> Inr (FloatVal v))
      else Inl (AttributeError name))"

definition repr_metrics :: "string list" where
  "repr_metrics =
     [''algorithm_period_returns'', ''benchmark_period_returns'', ''excess_returns'',
      ''trading_days'', ''benchmark_volatility'', ''algorithm_volatility'', ''sharpe'',
      ''sortino'', ''information'', ''beta'', ''alpha'', ''max_drawdown'',
      ''algorithm_returns'', ''benchmark_returns'']"

text \<open>
  The loop of lines 281 to 288; \<open>fmt\<close> is the formatting of a value by
  \<^verbatim>\<open>str.format\<close>, which is not modelled.
\<close>

fun repr_loop ::
  "(pyvalue \<Rightarrow> string) \<Rightarrow> state \<Rightarrow> string list \<Rightarrow> string list \<Rightarrow> exn + string list" where
  "repr_loop fmt s [] statements = Inr statements"
| "repr_loop fmt s (metric # rest) statements =
     (case py_getattr s metric of
        Inl ex \<Rightarrow> Inl ex
      | Inr v \<Rightarrow>
          let v' = (case v of
                      ListVal xs \<Rightarrow> if length xs = 0 then FloatVal NaN else FloatVal (last xs)
                    | _ \<Rightarrow> v)
          in repr_loop fmt s rest (statements @ [metric @ '':'' @ fmt v']))"

fun join_lines :: "string list \<Rightarrow> string" where
  "join_lines [] = []"
| "join_lines [l] = l"
| "join_lines (l # ls) = l @ [CHR 0x0A] @ join_lines ls"

definition repr :: "(pyvalue \<Rightarrow> string) \<Rightarrow> state \<Rightarrow> exn + string" where
  "repr fmt s =
     (case repr_loop fmt s repr_metrics [] of
        Inl ex \<Rightarrow> Inl ex
      | Inr statements \<Rightarrow> Inr (join_lines statements))"

subsection \<open>Statistics in the words of the specification\<close>

definition mean :: "real list \<Rightarrow> real" where
  "mean xs = sum_list xs / real (length xs)"

definition population_std :: "real list \<Rightarrow> real" where
  "population_std xs =
     sqrt (sum_list (map (\<lambda>x. (x - mean xs)\<^sup>2) xs) / real (length xs))"

definition sample_std :: "real list \<Rightarrow> real" where
  "sample_std xs =
     sqrt (sum_list (map (\<lambda>x. (x - mean xs)\<^sup>2) xs) / (real (length xs) - 1))"

definition sample_covariance :: "real list \<Rightarrow> real list \<Rightarrow> real" where
  "sample_covariance xs ys =
     sum_list (map (\<lambda>(x, y). (x - mean xs) * (y - mean ys)) (zip xs ys))
       / (real (length xs) - 1)"

definition sample_variance :: "real list \<Rightarrow> real" where
  "sample_variance ys =
     sum_list (map (\<lambda>y. (y - mean ys)\<^sup>2) ys) / (real (length ys) - 1)"

text \<open>An observed window of finite returns, as a Series.\<close>

definition observed :: "(nat \<times> real) list \<Rightarrow> series" where
  "observed w = map (\<lambda>(t, x). (t, Fin x)) w"

subsection \<open>A small run\<close>

text \<open>
  Three trading days, a treasury source that answers 0 for every day, ratio helpers
  that answer 0, and a pandas that raises on an absent label: the concrete inputs of
  the examples below.
\<close>

definition demo_env :: env where
  "demo_env =
     \<lparr> risk_choose_treasury = (\<lambda>start stop. Some (Fin 0)),
       risk_alpha = (\<lambda>apr tpr bpr beta. Fin 0),
       risk_information_ratio = (\<lambda>a b. Fin 0),
       risk_sortino_ratio = (\<lambda>a apr mar. Fin 0),
       atol = 1 / 1000000,
       rtol = 1 / 1000000,
       series_enlarges = False,
       frame_enlarges = False \<rparr>"


definition nan_env :: env where
  "nan_env =
     demo_env\<lparr>risk_choose_treasury :=
       (\<lambda>start stop. if stop = 1440 then Some NaN else Some (Fin 0))\<rparr>"

definition demo_params :: sim_params where
  "demo_params =
     \<lparr> period_start = 0, period_end = 2880, emission_rate = ''daily'',
       first_open = 570, last_close = 3840 \<rparr>"

text \<open>The object that \<^verbatim>\<open>__init__\<close> builds for these parameters.\<close>

definition demo_state :: state where
  "demo_state =
     \<lparr> treasury_period_returns = [], start_date = 0, end_date = 2880,
       trading_days = [0, 1440, 2880],
       algorithm_returns_cont = [(0, NaN), (1440, NaN), (2880, NaN)],
       benchmark_returns_cont = [(0, NaN), (1440, NaN), (2880, NaN)],
       annualized_mean_returns_cont = [(0, NaN), (1440, NaN), (2880, NaN)],
       algorithm_returns = None, benchmark_returns = None,
       annualized_mean_returns = None, num_trading_days = None,
       compounded_log_returns = [], algorithm_volatility = [],
       benchmark_volatility = [], algorithm_period_returns = [],
       benchmark_period_returns = [], latest_dt = 0,
       metrics_alpha = [(0, NaN), (1440, NaN), (2880, NaN)],
       metrics_beta = [(0, NaN), (1440, NaN), (2880, NaN)],
       metrics_sharpe = [(0, NaN), (1440, NaN), (2880, NaN)], sortino = [],
       information = [], max_drawdown = Fin 0, current_max = NegInf,
       excess_returns = [],
       daily_treasury = [(0, NaN), (1440, NaN), (2880, NaN)],
       treasury_period_return = None, treasury_queries = [] \<rparr>"

text \<open>The object with two given observed views of finite returns.\<close>

definition beta_demo :: "(nat \<times> real) list \<Rightarrow> (nat \<times> real) list \<Rightarrow> state" where
  "beta_demo wa wb =
     demo_state\<lparr>algorithm_returns := Some (observed wa),
                benchmark_returns := Some (observed wb)\<rparr>"

text \<open>
  The calendar days for which the treasury curve source has been asked, in the order
  of the calls, and the source that answers every query with a value that is not NaN.
\<close>

definition queried_days :: "state \<Rightarrow> nat list" where
  "queried_days s = map (\<lambda>q. replace_hour_minute (snd q)) (treasury_queries s)"

definition source_answers :: "env \<Rightarrow> bool" where
  "source_answers e =
     (\<forall>start stop. \<exists>v. risk_choose_treasury e start stop = Some v \<and> \<not> isnan v)"

text \<open>
  The invariant of the treasury cache, for the set \<open>T\<close> of the timestamps passed to
  \<^verbatim>\<open>update\<close> so far: every queried day has a cached value, no day was queried twice,
  and the queried and the observed timestamps are among \<open>T\<close>.
\<close>

definition cache_inv :: "nat set \<Rightarrow> state \<Rightarrow> bool" where
  "cache_inv T s =
     ((\<forall>d \<in> set (queried_days s). \<exists>v. getitem (daily_treasury s) d = Some v \<and> \<not> isnan v) \<and>
      distinct (queried_days s) \<and>
      snd ` set (treasury_queries s) \<subseteq> T \<and>
      (\<forall>(l, v) \<in> set (algorithm_returns_cont s). \<not> isnan v \<longrightarrow> l \<in> T) \<and>
      (\<forall>a. algorithm_returns s = Some a \<longrightarrow> set (index a) \<subseteq> T))"

text \<open>A minute grid of three minutes on one trading day.\<close>

definition minute_params :: sim_params where
  "minute_params =
     \<lparr> period_start = 0, period_end = 0, emission_rate = ''minute'',
       first_open = 570, last_close = 572 \<rparr>"

definition minute_state :: state where
  "minute_state =
     \<lparr> treasury_period_returns = [], start_date = 0, end_date = 0,
       trading_days = [0],
       algorithm_returns_cont = [(570, NaN), (571, NaN), (572, NaN)],
       benchmark_returns_cont = [(570, NaN), (571, NaN), (572, NaN)],
       annualized_mean_returns_cont = [(570, NaN), (571, NaN), (572, NaN)],
       algorithm_returns = None, benchmark_returns = None,
       annualized_mean_returns = None, num_trading_days = None,
       compounded_log_returns = [], algorithm_volatility = [],
       benchmark_volatility = [], algorithm_period_returns = [],
       benchmark_period_returns = [], latest_dt = 570,
       metrics_alpha = [(570, NaN), (571, NaN), (572, NaN)],
       metrics_beta = [(570, NaN), (571, NaN), (572, NaN)],
       metrics_sharpe = [(570, NaN), (571, NaN), (572, NaN)], sortino = [],
       information = [], max_drawdown = Fin 0, current_max = NegInf,
       excess_returns = [],
       daily_treasury = [(0, NaN)],
       treasury_period_return = None, treasury_queries = [] \<rparr>"

section \<open>Properties\<close>

subsection \<open>Series\<close>


lemma setitem_present:
  "k \<in> set (index s) \<Longrightarrow>
     setitem enl s k v = Some (map (\<lambda>(l, x). if l = k then (l, v) else (l, x)) s)"
  by (simp add: setitem_def)

lemma setitem_cases:
  assumes "setitem enl s k v = Some s'"
  shows "(k \<in> set (index s) \<and> s' = map (\<lambda>(l, x). if l = k then (l, v) else (l, x)) s) \<or>
         (k \<notin> set (index s) \<and> enl \<and> s' = s @ [(k, v)])"
  using assms by (auto simp: setitem_def split: if_splits)

lemma index_new_series [simp]: "index (new_series idx) = idx"
  by (simp add: index_def new_series_def comp_def)

lemma map_of_overwrite_same:
  "k \<in> fst ` set xs \<Longrightarrow>
     map_of (map (\<lambda>(l, x). if l = k then (l, v) else (l, x)) xs) k = Some v"
proof (induction xs)
  case Nil
  then show ?case by simp
next
  case (Cons p xs)
  obtain l w where p: "p = (l, w)" by (cases p)
  show ?case
  proof (cases "l = k")
    case True
    then show ?thesis by (simp add: p)
  next
    case False
    then have "k \<in> fst ` set xs" using Cons.prems by (simp add: p)
    then show ?thesis using Cons.IH False by (simp add: p)
  qed
qed

lemma map_of_overwrite_other:
  "k' \<noteq> k \<Longrightarrow>
     map_of (map (\<lambda>(l, x). if l = k then (l, v) else (l, x)) xs) k' = map_of xs k'"
proof (induction xs)
  case Nil
  then show ?case by simp
next
  case (Cons p xs)
  obtain l w where p: "p = (l, w)" by (cases p)
  show ?case using Cons by (cases "l = k") (simp_all add: p)
qed

lemma map_of_absent: "k \<notin> fst ` set xs \<Longrightarrow> map_of xs k = None"
  by (simp add: map_of_eq_None_iff)

lemma getitem_setitem_same:
  assumes "setitem enl s k v = Some s'"
  shows "getitem s' k = Some v"
proof -
  from setitem_cases [OF assms] show ?thesis
  proof
    assume "k \<in> set (index s) \<and> s' = map (\<lambda>(l, x). if l = k then (l, v) else (l, x)) s"
    then show ?thesis using map_of_overwrite_same [of k s v]
      by (simp add: getitem_def index_def)
  next
    assume "k \<notin> set (index s) \<and> enl \<and> s' = s @ [(k, v)]"
    then show ?thesis using map_of_absent [of k s]
      by (simp add: getitem_def index_def map_add_def)
  qed
qed

lemma getitem_setitem_other:
  assumes "setitem enl s k v = Some s'" and "k' \<noteq> k"
  shows "getitem s' k' = getitem s k'"
proof -
  from setitem_cases [OF assms(1)] show ?thesis
  proof
    assume "k \<in> set (index s) \<and> s' = map (\<lambda>(l, x). if l = k then (l, v) else (l, x)) s"
    then show ?thesis using map_of_overwrite_other [OF assms(2), of v s]
      by (simp add: getitem_def)
  next
    assume "k \<notin> set (index s) \<and> enl \<and> s' = s @ [(k, v)]"
    then show ?thesis using assms(2)
      by (simp add: getitem_def map_add_def split: option.splits)
  qed
qed

subsection \<open>What each part of \<^verbatim>\<open>update\<close> leaves alone\<close>

lemma record_returns_frame [simp]:
  "treasury_period_returns (snd (record_returns e dt a b s)) = treasury_period_returns s"
  "start_date (snd (record_returns e dt a b s)) = start_date s"
  "end_date (snd (record_returns e dt a b s)) = end_date s"
  "trading_days (snd (record_returns e dt a b s)) = trading_days s"
  "compounded_log_returns (snd (record_returns e dt a b s)) = compounded_log_returns s"
  "algorithm_volatility (snd (record_returns e dt a b s)) = algorithm_volatility s"
  "benchmark_volatility (snd (record_returns e dt a b s)) = benchmark_volatility s"
  "algorithm_period_returns (snd (record_returns e dt a b s)) = algorithm_period_returns s"
  "benchmark_period_returns (snd (record_returns e dt a b s)) = benchmark_period_returns s"
  "latest_dt (snd (record_returns e dt a b s)) = latest_dt s"
  "metrics_alpha (snd (record_returns e dt a b s)) = metrics_alpha s"
  "metrics_beta (snd (record_returns e dt a b s)) = metrics_beta s"
  "metrics_sharpe (snd (record_returns e dt a b s)) = metrics_sharpe s"
  "sortino (snd (record_returns e dt a b s)) = sortino s"
  "information (snd (record_returns e dt a b s)) = information s"
  "max_drawdown (snd (record_returns e dt a b s)) = max_drawdown s"
  "current_max (snd (record_returns e dt a b s)) = current_max s"
  "excess_returns (snd (record_returns e dt a b s)) = excess_returns s"
  "daily_treasury (snd (record_returns e dt a b s)) = daily_treasury s"
  "treasury_period_return (snd (record_returns e dt a b s)) = treasury_period_return s"
  "treasury_queries (snd (record_returns e dt a b s)) = treasury_queries s"
  by (simp_all add: record_returns_def Let_def split: option.splits)

lemma update_compounded_log_returns_frame [simp]:
  "treasury_period_returns (snd (update_compounded_log_returns s)) = treasury_period_returns s"
  "start_date (snd (update_compounded_log_returns s)) = start_date s"
  "end_date (snd (update_compounded_log_returns s)) = end_date s"
  "trading_days (snd (update_compounded_log_returns s)) = trading_days s"
  "algorithm_returns_cont (snd (update_compounded_log_returns s)) = algorithm_returns_cont s"
  "benchmark_returns_cont (snd (update_compounded_log_returns s)) = benchmark_returns_cont s"
  "annualized_mean_returns_cont (snd (update_compounded_log_returns s)) = annualized_mean_returns_cont s"
  "algorithm_returns (snd (update_compounded_log_returns s)) = algorithm_returns s"
  "benchmark_returns (snd (update_compounded_log_returns s)) = benchmark_returns s"
  "annualized_mean_returns (snd (update_compounded_log_returns s)) = annualized_mean_returns s"
  "num_trading_days (snd (update_compounded_log_returns s)) = num_trading_days s"
  "algorithm_volatility (snd (update_compounded_log_returns s)) = algorithm_volatility s"
  "benchmark_volatility (snd (update_compounded_log_returns s)) = benchmark_volatility s"
  "algorithm_period_returns (snd (update_compounded_log_returns s)) = algorithm_period_returns s"
  "benchmark_period_returns (snd (update_compounded_log_returns s)) = benchmark_period_returns s"
  "latest_dt (snd (update_compounded_log_returns s)) = latest_dt s"
  "metrics_alpha (snd (update_compounded_log_returns s)) = metrics_alpha s"
  "metrics_beta (snd (update_compounded_log_returns s)) = metrics_beta s"
  "metrics_sharpe (snd (update_compounded_log_returns s)) = metrics_sharpe s"
  "sortino (snd (update_compounded_log_returns s)) = sortino s"
  "information (snd (update_compounded_log_returns s)) = information s"
  "max_drawdown (snd (update_compounded_log_returns s)) = max_drawdown s"
  "current_max (snd (update_compounded_log_returns s)) = current_max s"
  "excess_returns (snd (update_compounded_log_returns s)) = excess_returns s"
  "daily_treasury (snd (update_compounded_log_returns s)) = daily_treasury s"
  "treasury_period_return (snd (update_compounded_log_returns s)) = treasury_period_return s"
  "treasury_queries (snd (update_compounded_log_returns s)) = treasury_queries s"
  by (simp_all add: update_compounded_log_returns_def Let_def split: option.splits sum.splits)

lemma append_period_returns_frame [simp]:
  "treasury_period_returns (snd (append_period_returns s)) = treasury_period_returns s"
  "start_date (snd (append_period_returns s)) = start_date s"
  "end_date (snd (append_period_returns s)) = end_date s"
  "trading_days (snd (append_period_returns s)) = trading_days s"
  "algorithm_returns_cont (snd (append_period_returns s)) = algorithm_returns_cont s"
  "benchmark_returns_cont (snd (append_period_returns s)) = benchmark_returns_cont s"
  "annualized_mean_returns_cont (snd (append_period_returns s)) = annualized_mean_returns_cont s"
  "algorithm_returns (snd (append_period_returns s)) = algorithm_returns s"
  "benchmark_returns (snd (append_period_returns s)) = benchmark_returns s"
  "annualized_mean_returns (snd (append_period_returns s)) = annualized_mean_returns s"
  "num_trading_days (snd (append_period_returns s)) = num_trading_days s"
  "compounded_log_returns (snd (append_period_returns s)) = compounded_log_returns s"
  "algorithm_volatility (snd (append_period_returns s)) = algorithm_volatility s"
  "benchmark_volatility (snd (append_period_returns s)) = benchmark_volatility s"
  "latest_dt (snd (append_period_returns s)) = latest_dt s"
  "metrics_alpha (snd (append_period_returns s)) = metrics_alpha s"
  "metrics_beta (snd (append_period_returns s)) = metrics_beta s"
  "metrics_sharpe (snd (append_period_returns s)) = metrics_sharpe s"
  "sortino (snd (append_period_returns s)) = sortino s"
  "information (snd (append_period_returns s)) = information s"
  "max_drawdown (snd (append_period_returns s)) = max_drawdown s"
  "current_max (snd (append_period_returns s)) = current_max s"
  "excess_returns (snd (append_period_returns s)) = excess_returns s"
  "daily_treasury (snd (append_period_returns s)) = daily_treasury s"
  "treasury_period_return (snd (append_period_returns s)) = treasury_period_return s"
  "treasury_queries (snd (append_period_returns s)) = treasury_queries s"
  by (simp_all add: append_period_returns_def Let_def split: option.splits)

lemma check_index_frame [simp]:
  "treasury_period_returns (snd (check_index s)) = treasury_period_returns s"
  "start_date (snd (check_index s)) = start_date s"
  "end_date (snd (check_index s)) = end_date s"
  "trading_days (snd (check_index s)) = trading_days s"
  "algorithm_returns_cont (snd (check_index s)) = algorithm_returns_cont s"
  "benchmark_returns_cont (snd (check_index s)) = benchmark_returns_cont s"
  "annualized_mean_returns_cont (snd (check_index s)) = annualized_mean_returns_cont s"
  "algorithm_returns (snd (check_index s)) = algorithm_returns s"
  "benchmark_returns (snd (check_index s)) = benchmark_returns s"
  "annualized_mean_returns (snd (check_index s)) = annualized_mean_returns s"
  "num_trading_days (snd (check_index s)) = num_trading_days s"
  "compounded_log_returns (snd (check_index s)) = compounded_log_returns s"
  "algorithm_volatility (snd (check_index s)) = algorithm_volatility s"
  "benchmark_volatility (snd (check_index s)) = benchmark_volatility s"
  "algorithm_period_returns (snd (check_index s)) = algorithm_period_returns s"
  "benchmark_period_returns (snd (check_index s)) = benchmark_period_returns s"
  "latest_dt (snd (check_index s)) = latest_dt s"
  "metrics_alpha (snd (check_index s)) = metrics_alpha s"
  "metrics_beta (snd (check_index s)) = metrics_beta s"
  "metrics_sharpe (snd (check_index s)) = metrics_sharpe s"
  "sortino (snd (check_index s)) = sortino s"
  "information (snd (check_index s)) = information s"
  "max_drawdown (snd (check_index s)) = max_drawdown s"
  "current_max (snd (check_index s)) = current_max s"
  "excess_returns (snd (check_index s)) = excess_returns s"
  "daily_treasury (snd (check_index s)) = daily_treasury s"
  "treasury_period_return (snd (check_index s)) = treasury_period_return s"
  "treasury_queries (snd (check_index s)) = treasury_queries s"
  by (simp_all add: check_index_def Let_def split: option.splits)

lemma append_volatility_frame [simp]:
  "treasury_period_returns (snd (append_volatility s)) = treasury_period_returns s"
  "start_date (snd (append_volatility s)) = start_date s"
  "end_date (snd (append_volatility s)) = end_date s"
  "trading_days (snd (append_volatility s)) = trading_days s"
  "algorithm_returns_cont (snd (append_volatility s)) = algorithm_returns_cont s"
  "benchmark_returns_cont (snd (append_volatility s)) = benchmark_returns_cont s"
  "annualized_mean_returns_cont (snd (append_volatility s)) = annualized_mean_returns_cont s"
  "algorithm_returns (snd (append_volatility s)) = algorithm_returns s"
  "benchmark_returns (snd (append_volatility s)) = benchmark_returns s"
  "annualized_mean_returns (snd (append_volatility s)) = annualized_mean_returns s"
  "num_trading_days (snd (append_volatility s)) = num_trading_days s"
  "compounded_log_returns (snd (append_volatility s)) = compounded_log_returns s"
  "algorithm_period_returns (snd (append_volatility s)) = algorithm_period_returns s"
  "benchmark_period_returns (snd (append_volatility s)) = benchmark_period_returns s"
  "latest_dt (snd (append_volatility s)) = latest_dt s"
  "metrics_alpha (snd (append_volatility s)) = metrics_alpha s"
  "metrics_beta (snd (append_volatility s)) = metrics_beta s"
  "metrics_sharpe (snd (append_volatility s)) = metrics_sharpe s"
  "sortino (snd (append_volatility s)) = sortino s"
  "information (snd (append_volatility s)) = information s"
  "max_drawdown (snd (append_volatility s)) = max_drawdown s"
  "excess_returns (snd (append_volatility s)) = excess_returns s"
  "daily_treasury (snd (append_volatility s)) = daily_treasury s"
  "treasury_period_return (snd (append_volatility s)) = treasury_period_return s"
  "treasury_queries (snd (append_volatility s)) = treasury_queries s"
  by (simp_all add: append_volatility_def update_current_max_def Let_def split: option.splits)

lemma lookup_treasury_frame [simp]:
  "treasury_period_returns (snd (lookup_treasury e s)) = treasury_period_returns s"
  "start_date (snd (lookup_treasury e s)) = start_date s"
  "end_date (snd (lookup_treasury e s)) = end_date s"
  "trading_days (snd (lookup_treasury e s)) = trading_days s"
  "algorithm_returns_cont (snd (lookup_treasury e s)) = algorithm_returns_cont s"
  "benchmark_returns_cont (snd (lookup_treasury e s)) = benchmark_returns_cont s"
  "annualized_mean_returns_cont (snd (lookup_treasury e s)) = annualized_mean_returns_cont s"
  "algorithm_returns (snd (lookup_treasury e s)) = algorithm_returns s"
  "benchmark_returns (snd (lookup_treasury e s)) = benchmark_returns s"
  "annualized_mean_returns (snd (lookup_treasury e s)) = annualized_mean_returns s"
  "num_trading_days (snd (lookup_treasury e s)) = num_trading_days s"
  "compounded_log_returns (snd (lookup_treasury e s)) = compounded_log_returns s"
  "algorithm_volatility (snd (lookup_treasury e s)) = algorithm_volatility s"
  "benchmark_volatility (snd (lookup_treasury e s)) = benchmark_volatility s"
  "algorithm_period_returns (snd (lookup_treasury e s)) = algorithm_period_returns s"
  "benchmark_period_returns (snd (lookup_treasury e s)) = benchmark_period_returns s"
  "latest_dt (snd (lookup_treasury e s)) = latest_dt s"
  "metrics_alpha (snd (lookup_treasury e s)) = metrics_alpha s"
  "metrics_beta (snd (lookup_treasury e s)) = metrics_beta s"
  "metrics_sharpe (snd (lookup_treasury e s)) = metrics_sharpe s"
  "sortino (snd (lookup_treasury e s)) = sortino s"
  "information (snd (lookup_treasury e s)) = information s"
  "max_drawdown (snd (lookup_treasury e s)) = max_drawdown s"
  "current_max (snd (lookup_treasury e s)) = current_max s"
  "excess_returns (snd (lookup_treasury e s)) = excess_returns s"
  "treasury_period_return (snd (lookup_treasury e s)) = treasury_period_return s"
  by (simp_all add: lookup_treasury_def Let_def split: option.splits)

lemma append_treasury_frame [simp]:
  "start_date (snd (append_treasury s)) = start_date s"
  "end_date (snd (append_treasury s)) = end_date s"
  "trading_days (snd (append_treasury s)) = trading_days s"
  "algorithm_returns_cont (snd (append_treasury s)) = algorithm_returns_cont s"
  "benchmark_returns_cont (snd (append_treasury s)) = benchmark_returns_cont s"
  "annualized_mean_returns_cont (snd (append_treasury s)) = annualized_mean_returns_cont s"
  "algorithm_returns (snd (append_treasury s)) = algorithm_returns s"
  "benchmark_returns (snd (append_treasury s)) = benchmark_returns s"
  "annualized_mean_returns (snd (append_treasury s)) = annualized_mean_returns s"
  "num_trading_days (snd (append_treasury s)) = num_trading_days s"
  "compounded_log_returns (snd (append_treasury s)) = compounded_log_returns s"
  "algorithm_volatility (snd (append_treasury s)) = algorithm_volatility s"
  "benchmark_volatility (snd (append_treasury s)) = benchmark_volatility s"
  "algorithm_period_returns (snd (append_treasury s)) = algorithm_period_returns s"
  "benchmark_period_returns (snd (append_treasury s)) = benchmark_period_returns s"
  "latest_dt (snd (append_treasury s)) = latest_dt s"
  "metrics_alpha (snd (append_treasury s)) = metrics_alpha s"
  "metrics_beta (snd (append_treasury s)) = metrics_beta s"
  "metrics_sharpe (snd (append_treasury s)) = metrics_sharpe s"
  "sortino (snd (append_treasury s)) = sortino s"
  "information (snd (append_treasury s)) = information s"
  "max_drawdown (snd (append_treasury s)) = max_drawdown s"
  "current_max (snd (append_treasury s)) = current_max s"
  "daily_treasury (snd (append_treasury s)) = daily_treasury s"
  "treasury_queries (snd (append_treasury s)) = treasury_queries s"
  by (simp_all add: append_treasury_def Let_def split: option.splits)

lemma update_metrics_frame [simp]:
  "treasury_period_returns (snd (update_metrics e dt s)) = treasury_period_returns s"
  "start_date (snd (update_metrics e dt s)) = start_date s"
  "end_date (snd (update_metrics e dt s)) = end_date s"
  "trading_days (snd (update_metrics e dt s)) = trading_days s"
  "algorithm_returns_cont (snd (update_metrics e dt s)) = algorithm_returns_cont s"
  "benchmark_returns_cont (snd (update_metrics e dt s)) = benchmark_returns_cont s"
  "annualized_mean_returns_cont (snd (update_metrics e dt s)) = annualized_mean_returns_cont s"
  "algorithm_returns (snd (update_metrics e dt s)) = algorithm_returns s"
  "benchmark_returns (snd (update_metrics e dt s)) = benchmark_returns s"
  "annualized_mean_returns (snd (update_metrics e dt s)) = annualized_mean_returns s"
  "num_trading_days (snd (update_metrics e dt s)) = num_trading_days s"
  "compounded_log_returns (snd (update_metrics e dt s)) = compounded_log_returns s"
  "algorithm_volatility (snd (update_metrics e dt s)) = algorithm_volatility s"
  "benchmark_volatility (snd (update_metrics e dt s)) = benchmark_volatility s"
  "algorithm_period_returns (snd (update_metrics e dt s)) = algorithm_period_returns s"
  "benchmark_period_returns (snd (update_metrics e dt s)) = benchmark_period_returns s"
  "current_max (snd (update_metrics e dt s)) = current_max s"
  "excess_returns (snd (update_metrics e dt s)) = excess_returns s"
  "daily_treasury (snd (update_metrics e dt s)) = daily_treasury s"
  "treasury_period_return (snd (update_metrics e dt s)) = treasury_period_return s"
  "treasury_queries (snd (update_metrics e dt s)) = treasury_queries s"
  by (simp_all add: update_metrics_def Let_def split: option.splits sum.splits)

lemma record_returns_frameD:
  assumes "record_returns e dt a b s = (r, s')"
  shows "treasury_period_returns s' = treasury_period_returns s"
    "start_date s' = start_date s"
    "end_date s' = end_date s"
    "trading_days s' = trading_days s"
    "compounded_log_returns s' = compounded_log_returns s"
    "algorithm_volatility s' = algorithm_volatility s"
    "benchmark_volatility s' = benchmark_volatility s"
    "algorithm_period_returns s' = algorithm_period_returns s"
    "benchmark_period_returns s' = benchmark_period_returns s"
    "latest_dt s' = latest_dt s"
    "metrics_alpha s' = metrics_alpha s"
    "metrics_beta s' = metrics_beta s"
    "metrics_sharpe s' = metrics_sharpe s"
    "sortino s' = sortino s"
    "information s' = information s"
    "max_drawdown s' = max_drawdown s"
    "current_max s' = current_max s"
    "excess_returns s' = excess_returns s"
    "daily_treasury s' = daily_treasury s"
    "treasury_period_return s' = treasury_period_return s"
    "treasury_queries s' = treasury_queries s"
  using assms record_returns_frame [of e dt a b s] by simp_all

lemma update_compounded_log_returns_frameD:
  assumes "update_compounded_log_returns s = (r, s')"
  shows "treasury_period_returns s' = treasury_period_returns s"
    "start_date s' = start_date s"
    "end_date s' = end_date s"
    "trading_days s' = trading_days s"
    "algorithm_returns_cont s' = algorithm_returns_cont s"
    "benchmark_returns_cont s' = benchmark_returns_cont s"
    "annualized_mean_returns_cont s' = annualized_mean_returns_cont s"
    "algorithm_returns s' = algorithm_returns s"
    "benchmark_returns s' = benchmark_returns s"
    "annualized_mean_returns s' = annualized_mean_returns s"
    "num_trading_days s' = num_trading_days s"
    "algorithm_volatility s' = algorithm_volatility s"
    "benchmark_volatility s' = benchmark_volatility s"
    "algorithm_period_returns s' = algorithm_period_returns s"
    "benchmark_period_returns s' = benchmark_period_returns s"
    "latest_dt s' = latest_dt s"
    "metrics_alpha s' = metrics_alpha s"
    "metrics_beta s' = metrics_beta s"
    "metrics_sharpe s' = metrics_sharpe s"
    "sortino s' = sortino s"
    "information s' = information s"
    "max_drawdown s' = max_drawdown s"
    "current_max s' = current_max s"
    "excess_returns s' = excess_returns s"
    "daily_treasury s' = daily_treasury s"
    "treasury_period_return s' = treasury_period_return s"
    "treasury_queries s' = treasury_queries s"
  using assms update_compounded_log_returns_frame [of s] by simp_all

lemma append_period_returns_frameD:
  assumes "append_period_returns s = (r, s')"
  shows "treasury_period_returns s' = treasury_period_returns s"
    "start_date s' = start_date s"
    "end_date s' = end_date s"
    "trading_days s' = trading_days s"
    "algorithm_returns_cont s' = algorithm_returns_cont s"
    "benchmark_returns_cont s' = benchmark_returns_cont s"
    "annualized_mean_returns_cont s' = annualized_mean_returns_cont s"
    "algorithm_returns s' = algorithm_returns s"
    "benchmark_returns s' = benchmark_returns s"
    "annualized_mean_returns s' = annualized_mean_returns s"
    "num_trading_days s' = num_trading_days s"
    "compounded_log_returns s' = compounded_log_returns s"
    "algorithm_volatility s' = algorithm_volatility s"
    "benchmark_volatility s' = benchmark_volatility s"
    "latest_dt s' = latest_dt s"
    "metrics_alpha s' = metrics_alpha s"
    "metrics_beta s' = metrics_beta s"
    "metrics_sharpe s' = metrics_sharpe s"
    "sortino s' = sortino s"
    "information s' = information s"
    "max_drawdown s' = max_drawdown s"
    "current_max s' = current_max s"
    "excess_returns s' = excess_returns s"
    "daily_treasury s' = daily_treasury s"
    "treasury_period_return s' = treasury_period_return s"
    "treasury_queries s' = treasury_queries s"
  using assms append_period_returns_frame [of s] by simp_all

lemma check_index_frameD:
  assumes "check_index s = (r, s')"
  shows "treasury_period_returns s' = treasury_period_returns s"
    "start_date s' = start_date s"
    "end_date s' = end_date s"
    "trading_days s' = trading_days s"
    "algorithm_returns_cont s' = algorithm_returns_cont s"
    "benchmark_returns_cont s' = benchmark_returns_cont s"
    "annualized_mean_returns_cont s' = annualized_mean_returns_cont s"
    "algorithm_returns s' = algorithm_returns s"
    "benchmark_returns s' = benchmark_returns s"
    "annualized_mean_returns s' = annualized_mean_returns s"
    "num_trading_days s' = num_trading_days s"
    "compounded_log_returns s' = compounded_log_returns s"
    "algorithm_volatility s' = algorithm_volatility s"
    "benchmark_volatility s' = benchmark_volatility s"
    "algorithm_period_returns s' = algorithm_period_returns s"
    "benchmark_period_returns s' = benchmark_period_returns s"
    "latest_dt s' = latest_dt s"
    "metrics_alpha s' = metrics_alpha s"
    "metrics_beta s' = metrics_beta s"
    "metrics_sharpe s' = metrics_sharpe s"
    "sortino s' = sortino s"
    "information s' = information s"
    "max_drawdown s' = max_drawdown s"
    "current_max s' = current_max s"
    "excess_returns s' = excess_returns s"
    "daily_treasury s' = daily_treasury s"
    "treasury_period_return s' = treasury_period_return s"
    "treasury_queries s' = treasury_queries s"
  using assms check_index_frame [of s] by simp_all

lemma append_volatility_frameD:
  assumes "append_volatility s = (r, s')"
  shows "treasury_period_returns s' = treasury_period_returns s"
    "start_date s' = start_date s"
    "end_date s' = end_date s"
    "trading_days s' = trading_days s"
    "algorithm_returns_cont s' = algorithm_returns_cont s"
    "benchmark_returns_cont s' = benchmark_returns_cont s"
    "annualized_mean_returns_cont s' = annualized_mean_returns_cont s"
    "algorithm_returns s' = algorithm_returns s"
    "benchmark_returns s' = benchmark_returns s"
    "annualized_mean_returns s' = annualized_mean_returns s"
    "num_trading_days s' = num_trading_days s"
    "compounded_log_returns s' = compounded_log_returns s"
    "algorithm_period_returns s' = algorithm_period_returns s"
    "benchmark_period_returns s' = benchmark_period_returns s"
    "latest_dt s' = latest_dt s"
    "metrics_alpha s' = metrics_alpha s"
    "metrics_beta s' = metrics_beta s"
    "metrics_sharpe s' = metrics_sharpe s"
    "sortino s' = sortino s"
    "information s' = information s"
    "max_drawdown s' = max_drawdown s"
    "excess_returns s' = excess_returns s"
    "daily_treasury s' = daily_treasury s"
    "treasury_period_return s' = treasury_period_return s"
    "treasury_queries s' = treasury_queries s"
  using assms append_volatility_frame [of s] by simp_all

lemma lookup_treasury_frameD:
  assumes "lookup_treasury e s = (r, s')"
  shows "treasury_period_returns s' = treasury_period_returns s"
    "start_date s' = start_date s"
    "end_date s' = end_date s"
    "trading_days s' = trading_days s"
    "algorithm_returns_cont s' = algorithm_returns_cont s"
    "benchmark_returns_cont s' = benchmark_returns_cont s"
    "annualized_mean_returns_cont s' = annualized_mean_returns_cont s"
    "algorithm_returns s' = algorithm_returns s"
    "benchmark_returns s' = benchmark_returns s"
    "annualized_mean_returns s' = annualized_mean_returns s"
    "num_trading_days s' = num_trading_days s"
    "compounded_log_returns s' = compounded_log_returns s"
    "algorithm_volatility s' = algorithm_volatility s"
    "benchmark_volatility s' = benchmark_volatility s"
    "algorithm_period_returns s' = algorithm_period_returns s"
    "benchmark_period_returns s' = benchmark_period_returns s"
    "latest_dt s' = latest_dt s"
    "metrics_alpha s' = metrics_alpha s"
    "metrics_beta s' = metrics_beta s"
    "metrics_sharpe s' = metrics_sharpe s"
    "sortino s' = sortino s"
    "information s' = information s"
    "max_drawdown s' = max_drawdown s"
    "current_max s' = current_max s"
    "excess_returns s' = excess_returns s"
    "treasury_period_return s' = treasury_period_return s"
  using assms lookup_treasury_frame [of e s] by simp_all

lemma append_treasury_frameD:
  assumes "append_treasury s = (r, s')"
  shows "start_date s' = start_date s"
    "end_date s' = end_date s"
    "trading_days s' = trading_days s"
    "algorithm_returns_cont s' = algorithm_returns_cont s"
    "benchmark_returns_cont s' = benchmark_returns_cont s"
    "annualized_mean_returns_cont s' = annualized_mean_returns_cont s"
    "algorithm_returns s' = algorithm_returns s"
    "benchmark_returns s' = benchmark_returns s"
    "annualized_mean_returns s' = annualized_mean_returns s"
    "num_trading_days s' = num_trading_days s"
    "compounded_log_returns s' = compounded_log_returns s"
    "algorithm_volatility s' = algorithm_volatility s"
    "benchmark_volatility s' = benchmark_volatility s"
    "algorithm_period_returns s' = algorithm_period_returns s"
    "benchmark_period_returns s' = benchmark_period_returns s"
    "latest_dt s' = latest_dt s"
    "metrics_alpha s' = metrics_alpha s"
    "metrics_beta s' = metrics_beta s"
    "metrics_sharpe s' = metrics_sharpe s"
    "sortino s' = sortino s"
    "information s' = information s"
    "max_drawdown s' = max_drawdown s"
    "current_max s' = current_max s"
    "daily_treasury s' = daily_treasury s"
    "treasury_queries s' = treasury_queries s"
  using assms append_treasury_frame [of s] by simp_all

lemma update_metrics_frameD:
  assumes "update_metrics e dt s = (r, s')"
  shows "treasury_period_returns s' = treasury_period_returns s"
    "start_date s' = start_date s"
    "end_date s' = end_date s"
    "trading_days s' = trading_days s"
    "algorithm_returns_cont s' = algorithm_returns_cont s"
    "benchmark_returns_cont s' = benchmark_returns_cont s"
    "annualized_mean_returns_cont s' = annualized_mean_returns_cont s"
    "algorithm_returns s' = algorithm_returns s"
    "benchmark_returns s' = benchmark_returns s"
    "annualized_mean_returns s' = annualized_mean_returns s"
    "num_trading_days s' = num_trading_days s"
    "compounded_log_returns s' = compounded_log_returns s"
    "algorithm_volatility s' = algorithm_volatility s"
    "benchmark_volatility s' = benchmark_volatility s"
    "algorithm_period_returns s' = algorithm_period_returns s"
    "benchmark_period_returns s' = benchmark_period_returns s"
    "current_max s' = current_max s"
    "excess_returns s' = excess_returns s"
    "daily_treasury s' = daily_treasury s"
    "treasury_period_return s' = treasury_period_return s"
    "treasury_queries s' = treasury_queries s"
  using assms update_metrics_frame [of e dt s] by simp_all


subsection \<open>The shape of an update\<close>

lemma then_do_simps [simp]:
  "then_do (None, s) f = f s"
  "then_do (Some ex, s) f = (Some ex, s)"
  by (simp_all add: then_do_def)

lemma update_cases [case_names rec clr per chk vol look app met]:
  obtains
    ex where "fst (record_returns e dt a b s) = Some ex"
      and "update e dt a b s = record_returns e dt a b s"
  | s1 ex where "record_returns e dt a b s = (None, s1)"
      and "fst (update_compounded_log_returns s1) = Some ex"
      and "update e dt a b s = update_compounded_log_returns s1"
  | s1 s2 ex where "record_returns e dt a b s = (None, s1)"
      and "update_compounded_log_returns s1 = (None, s2)"
      and "fst (append_period_returns s2) = Some ex"
      and "update e dt a b s = append_period_returns s2"
  | s1 s2 s3 ex where "record_returns e dt a b s = (None, s1)"
      and "update_compounded_log_returns s1 = (None, s2)"
      and "append_period_returns s2 = (None, s3)"
      and "fst (check_index s3) = Some ex"
      and "update e dt a b s = check_index s3"
  | s1 s2 s3 s4 ex where "record_returns e dt a b s = (None, s1)"
      and "update_compounded_log_returns s1 = (None, s2)"
      and "append_period_returns s2 = (None, s3)"
      and "check_index s3 = (None, s4)"
      and "fst (append_volatility s4) = Some ex"
      and "update e dt a b s = append_volatility s4"
  | s1 s2 s3 s4 s5 ex where "record_returns e dt a b s = (None, s1)"
      and "update_compounded_log_returns s1 = (None, s2)"
      and "append_period_returns s2 = (None, s3)"
      and "check_index s3 = (None, s4)"
      and "append_volatility s4 = (None, s5)"
      and "fst (lookup_treasury e s5) = Some ex"
      and "update e dt a b s = lookup_treasury e s5"
  | s1 s2 s3 s4 s5 s6 ex where "record_returns e dt a b s = (None, s1)"
      and "update_compounded_log_returns s1 = (None, s2)"
      and "append_period_returns s2 = (None, s3)"
      and "check_index s3 = (None, s4)"
      and "append_volatility s4 = (None, s5)"
      and "lookup_treasury e s5 = (None, s6)"
      and "fst (append_treasury s6) = Some ex"
      and "update e dt a b s = append_treasury s6"
  | s1 s2 s3 s4 s5 s6 s7 where "record_returns e dt a b s = (None, s1)"
      and "update_compounded_log_returns s1 = (None, s2)"
      and "append_period_returns s2 = (None, s3)"
      and "check_index s3 = (None, s4)"
      and "append_volatility s4 = (None, s5)"
      and "lookup_treasury e s5 = (None, s6)"
      and "append_treasury s6 = (None, s7)"
      and "update e dt a b s = update_metrics e dt s7"
proof -
  obtain r1 s1 where p1: "record_returns e dt a b s = (r1, s1)" by (cases "record_returns e dt a b s")
  obtain r2 s2 where p2: "update_compounded_log_returns s1 = (r2, s2)"
    by (cases "update_compounded_log_returns s1")
  obtain r3 s3 where p3: "append_period_returns s2 = (r3, s3)" by (cases "append_period_returns s2")
  obtain r4 s4 where p4: "check_index s3 = (r4, s4)" by (cases "check_index s3")
  obtain r5 s5 where p5: "append_volatility s4 = (r5, s5)" by (cases "append_volatility s4")
  obtain r6 s6 where p6: "lookup_treasury e s5 = (r6, s6)" by (cases "lookup_treasury e s5")
  obtain r7 s7 where p7: "append_treasury s6 = (r7, s7)" by (cases "append_treasury s6")
  show thesis
  proof (cases r1)
    case (Some ex) with p1 that(1) show ?thesis by (simp add: update_def)
  next
    case n1: None
    show ?thesis
    proof (cases r2)
      case (Some ex) with p1 p2 n1 that(2) show ?thesis by (simp add: update_def)
    next
      case n2: None
      show ?thesis
      proof (cases r3)
        case (Some ex) with p1 p2 p3 n1 n2 that(3) show ?thesis by (simp add: update_def)
      next
        case n3: None
        show ?thesis
        proof (cases r4)
          case (Some ex) with p1 p2 p3 p4 n1 n2 n3 that(4) show ?thesis by (simp add: update_def)
        next
          case n4: None
          show ?thesis
          proof (cases r5)
            case (Some ex)
            with p1 p2 p3 p4 p5 n1 n2 n3 n4 that(5) show ?thesis by (simp add: update_def)
          next
            case n5: None
            show ?thesis
            proof (cases r6)
              case (Some ex)
              with p1 p2 p3 p4 p5 p6 n1 n2 n3 n4 n5 that(6) show ?thesis
                by (simp add: update_def)
            next
              case n6: None
              show ?thesis
              proof (cases r7)
                case (Some ex)
                with p1 p2 p3 p4 p5 p6 p7 n1 n2 n3 n4 n5 n6 that(7) show ?thesis
                  by (simp add: update_def)
              next
                case n7: None
                with p1 p2 p3 p4 p5 p6 p7 n1 n2 n3 n4 n5 n6 that(8) show ?thesis
                  by (simp add: update_def)
              qed
            qed
          qed
        qed
      qed
    qed
  qed
qed

subsection \<open>The textual summary\<close>


lemma init_demo: "init [0, 1440, 2880] demo_params None = Inr demo_state"
  by (simp add: demo_state_def init_def demo_params_def replace_hour_minute_def
      new_series_def Let_def)

text \<open>
  C9 (fails on the code). The summary is to return one line per tracked metric and not
  to raise. The loop of \<^verbatim>\<open>__repr__\<close> reads each metric with \<^verbatim>\<open>getattr\<close>; the
  seventh name is \<^verbatim>\<open>sharpe\<close>, which is a column of \<^verbatim>\<open>self.metrics\<close> and not an
  attribute, so in every state, the freshly constructed one included, the summary
  raises \<^verbatim>\<open>AttributeError\<close> and returns no string.
\<close>

theorem repr_raises_AttributeError:
  "repr fmt s = Inl (AttributeError ''sharpe'')"
  by (simp add: repr_def repr_metrics_def py_getattr_def)

subsection \<open>The Sharpe ratio\<close>

text \<open>
  C5 (as amended). With a non-negative absolute tolerance, \<^verbatim>\<open>sharpe_ratio\<close> raises on
  no triple of floats. It returns NaN whenever the volatility is within tolerance of
  zero, and otherwise the float quotient of the annualized return minus the treasury
  return by the volatility, which is NaN as well when an argument is NaN or the
  quotient is undefined. On a triple of finite floats it returns NaN exactly when the
  volatility is within tolerance of zero, and otherwise the real quotient.
\<close>

theorem sharpe_ratio_every_triple:
  assumes "0 \<le> atl"
  shows "sharpe_ratio atl rtl vol ann tre =
           Inr (if tolerant_equals atl rtl vol 0 then NaN
                else np_divide (fsub ann tre) vol) \<and>
         sharpe_ratio atl rtl (Fin v) (Fin a) (Fin t) =
           Inr (if tolerant_equals atl rtl (Fin v) 0 then NaN else Fin ((a - t) / v)) \<and>
         ((sharpe_ratio atl rtl (Fin v) (Fin a) (Fin t) = Inr NaN) =
            tolerant_equals atl rtl (Fin v) 0)"
  using assms
  by (auto simp: sharpe_ratio_def tolerant_equals_def py_truediv_def fsub_def
      split: pyfloat.splits)

theorem sharpe_ratio_witness:
  "sharpe_ratio (1 / 1000000) (1 / 1000000) (Fin 0) (Fin 1) (Fin 0) = Inr NaN \<and>
   sharpe_ratio (1 / 1000000) (1 / 1000000) (Fin (1 / 2)) (Fin 1) (Fin 0) = Inr (Fin 2) \<and>
   sharpe_ratio (1 / 1000000) (1 / 1000000) PosInf (Fin 1) (Fin 0) = Inr (Fin 0)"
  using sharpe_ratio_every_triple [of "1 / 1000000" "1 / 1000000" "Fin 0" "Fin 1" "Fin 0" 0 1 0]
    sharpe_ratio_every_triple
      [of "1 / 1000000" "1 / 1000000" "Fin (1 / 2)" "Fin 1" "Fin 0" "1 / 2" 1 0]
    sharpe_ratio_every_triple [of "1 / 1000000" "1 / 1000000" PosInf "Fin 1" "Fin 0" 0 1 0]
  by (simp add: tolerant_equals_def fsub_def)

text \<open>
  C5 as stated fails: with a NaN volatility, or with an infinite annualized return and
  an infinite treasury return, the result is NaN although the volatility is not within
  tolerance of zero.
\<close>

theorem sharpe_ratio_nan_off_tolerance:
  "sharpe_ratio (1 / 1000000) (1 / 1000000) NaN (Fin 1) (Fin 0) = Inr NaN \<and>
   \<not> tolerant_equals (1 / 1000000) (1 / 1000000) NaN 0 \<and>
   sharpe_ratio (1 / 1000000) (1 / 1000000) (Fin 1) PosInf PosInf = Inr NaN \<and>
   \<not> tolerant_equals (1 / 1000000) (1 / 1000000) (Fin 1) 0"
  by (simp add: sharpe_ratio_def tolerant_equals_def py_truediv_def fsub_def)

lemma update_preserves:
  assumes "P s"
    and "\<And>s. P s \<Longrightarrow> P (snd (record_returns e dt a b s))"
    and "\<And>s. P s \<Longrightarrow> P (snd (update_compounded_log_returns s))"
    and "\<And>s. P s \<Longrightarrow> P (snd (append_period_returns s))"
    and "\<And>s. P s \<Longrightarrow> P (snd (check_index s))"
    and "\<And>s. P s \<Longrightarrow> P (snd (append_volatility s))"
    and "\<And>s. P s \<Longrightarrow> P (snd (lookup_treasury e s))"
    and "\<And>s. P s \<Longrightarrow> P (snd (append_treasury s))"
    and "\<And>s. P s \<Longrightarrow> P (snd (update_metrics e dt s))"
  shows "P (snd (update e dt a b s))"
proof -
  show ?thesis
  proof (cases rule: update_cases [of e dt a b s])
    case rec
    then show ?thesis using assms(1,2) by simp
  next
    case (clr s1 ex)
    have p1: "P s1" using assms(1) assms(2) [of s] clr(1) by (metis snd_conv)
    then show ?thesis using clr(3) assms(3) by simp
  next
    case (per s1 s2 ex)
    have p1: "P s1" using assms(1) assms(2) [of s] per(1) by (metis snd_conv)
    have p2: "P s2" using p1 assms(3) [of s1] per(2) by (metis snd_conv)
    then show ?thesis using per(4) assms(4) by simp
  next
    case (chk s1 s2 s3 ex)
    have p1: "P s1" using assms(1) assms(2) [of s] chk(1) by (metis snd_conv)
    have p2: "P s2" using p1 assms(3) [of s1] chk(2) by (metis snd_conv)
    have p3: "P s3" using p2 assms(4) [of s2] chk(3) by (metis snd_conv)
    then show ?thesis using chk(5) assms(5) by simp
  next
    case (vol s1 s2 s3 s4 ex)
    have p1: "P s1" using assms(1) assms(2) [of s] vol(1) by (metis snd_conv)
    have p2: "P s2" using p1 assms(3) [of s1] vol(2) by (metis snd_conv)
    have p3: "P s3" using p2 assms(4) [of s2] vol(3) by (metis snd_conv)
    have p4: "P s4" using p3 assms(5) [of s3] vol(4) by (metis snd_conv)
    then show ?thesis using vol(6) assms(6) by simp
  next
    case (look s1 s2 s3 s4 s5 ex)
    have p1: "P s1" using assms(1) assms(2) [of s] look(1) by (metis snd_conv)
    have p2: "P s2" using p1 assms(3) [of s1] look(2) by (metis snd_conv)
    have p3: "P s3" using p2 assms(4) [of s2] look(3) by (metis snd_conv)
    have p4: "P s4" using p3 assms(5) [of s3] look(4) by (metis snd_conv)
    have p5: "P s5" using p4 assms(6) [of s4] look(5) by (metis snd_conv)
    then show ?thesis using look(7) assms(7) by simp
  next
    case (app s1 s2 s3 s4 s5 s6 ex)
    have p1: "P s1" using assms(1) assms(2) [of s] app(1) by (metis snd_conv)
    have p2: "P s2" using p1 assms(3) [of s1] app(2) by (metis snd_conv)
    have p3: "P s3" using p2 assms(4) [of s2] app(3) by (metis snd_conv)
    have p4: "P s4" using p3 assms(5) [of s3] app(4) by (metis snd_conv)
    have p5: "P s5" using p4 assms(6) [of s4] app(5) by (metis snd_conv)
    have p6: "P s6" using p5 assms(7) [of s5] app(6) by (metis snd_conv)
    then show ?thesis using app(8) assms(8) by simp
  next
    case (met s1 s2 s3 s4 s5 s6 s7)
    have p1: "P s1" using assms(1) assms(2) [of s] met(1) by (metis snd_conv)
    have p2: "P s2" using p1 assms(3) [of s1] met(2) by (metis snd_conv)
    have p3: "P s3" using p2 assms(4) [of s2] met(3) by (metis snd_conv)
    have p4: "P s4" using p3 assms(5) [of s3] met(4) by (metis snd_conv)
    have p5: "P s5" using p4 assms(6) [of s4] met(5) by (metis snd_conv)
    have p6: "P s6" using p5 assms(7) [of s5] met(6) by (metis snd_conv)
    have p7: "P s7" using p6 assms(8) [of s6] met(7) by (metis snd_conv)
    then show ?thesis using met(8) assms(9) by simp
  qed
qed

lemma updates_snoc:
  "updates e (calls @ [(dt, a, b)]) s = snd (update e dt a b (updates e calls s))"
  by (simp add: updates_def)

lemma updates_induct [consumes 1, case_names step]:
  assumes "P s0"
    and "\<And>s dt a b. P s \<Longrightarrow> P (snd (update e dt a b s))"
  shows "P (updates e calls s0)"
proof (induction calls rule: rev_induct)
  case Nil
  then show ?case using assms(1) by (simp add: updates_def)
next
  case (snoc c calls)
  obtain dt a b where "c = (dt, a, b)" by (cases c)
  then show ?case using snoc assms(2) by (simp add: updates_snoc)
qed

lemmas update_unfold =
  update_def record_returns_def update_compounded_log_returns_def append_period_returns_def
  check_index_def append_volatility_def lookup_treasury_def append_treasury_def
  update_metrics_def update_current_max_def calculate_max_drawdown_def calculate_beta_def
  calculate_alpha_def calculate_sharpe_def calculate_sortino_def calculate_information_def
  setitem_def getitem_def valid_def index_def values_of_def last_item_def
  last_valid_index_def replace_hour_minute_def Let_def
  fsum_def fprod_def np_mean_def np_std_def np_cov_def dot_def calculate_volatility_def
  calculate_period_returns_def sharpe_ratio_def tolerant_equals_def py_truediv_def fsub_def

lemma demo_first_update:
  "fst (update demo_env 0 (Fin 0) (Fin 0) demo_state) = None"
  "max_drawdown (snd (update demo_env 0 (Fin 0) (Fin 0) demo_state)) = Fin 0"
  by (simp_all add: update_unfold demo_state_def demo_env_def fsub_def)

subsection \<open>The time grid\<close>













subsection \<open>Drawdown\<close>

lemma init_max_drawdown: "init atd sp rf = Inr s0 \<Longrightarrow> max_drawdown s0 = Fin 0"
  by (auto simp: init_def Let_def split: if_splits list.splits)

lemma cur_drawdown_not_PosInf: "fsub (Fin 1) (math_exp z) \<noteq> PosInf"
  by (cases z) (simp_all add: fsub_def)

lemma calculate_max_drawdown_mono:
  assumes "max_drawdown s = Fin x"
  shows "\<exists>y. calculate_max_drawdown s = Fin y \<and> x \<le> y"
proof (cases "length (compounded_log_returns s) = 0")
  case True
  then show ?thesis using assms by (simp add: calculate_max_drawdown_def)
next
  case False
  define cur where
    "cur = fsub (Fin 1) (math_exp (fsub (last (compounded_log_returns s)) (current_max s)))"
  have c: "calculate_max_drawdown s = (if flt (Fin x) cur then cur else Fin x)"
    using False assms by (simp add: calculate_max_drawdown_def cur_def Let_def)
  have "cur \<noteq> PosInf" unfolding cur_def by (rule cur_drawdown_not_PosInf)
  then show ?thesis unfolding c by (cases cur) auto
qed

lemma calculate_max_drawdown_cong:
  "max_drawdown s' = max_drawdown s \<Longrightarrow>
   compounded_log_returns s' = compounded_log_returns s \<Longrightarrow>
   current_max s' = current_max s \<Longrightarrow>
   calculate_max_drawdown s' = calculate_max_drawdown s"
  by (simp add: calculate_max_drawdown_def Let_def)

lemma update_metrics_max_drawdown_ok:
  "update_metrics e dt s = (None, s') \<Longrightarrow> max_drawdown s' = calculate_max_drawdown s"
  by (auto simp: update_metrics_def Let_def split: sum.splits option.splits
      intro!: calculate_max_drawdown_cong)

lemma update_metrics_max_drawdown_raise:
  "update_metrics e dt s = (Some ex, s') \<Longrightarrow> max_drawdown s' = max_drawdown s"
  by (auto simp: update_metrics_def Let_def split: sum.splits option.splits)

lemma update_metrics_max_drawdown:
  "max_drawdown (snd (update_metrics e dt s)) = max_drawdown s \<or>
   max_drawdown (snd (update_metrics e dt s)) = calculate_max_drawdown s"
proof (cases "update_metrics e dt s")
  case (Pair r s')
  then show ?thesis
    using update_metrics_max_drawdown_ok [of e dt s s']
      update_metrics_max_drawdown_raise [of e dt s _ s']
    by (cases r) auto
qed

lemma update_max_drawdown_mono:
  assumes "max_drawdown s = Fin x"
  shows "\<exists>y. max_drawdown (snd (update e dt a b s)) = Fin y \<and> x \<le> y"
proof (rule update_preserves [where P = "\<lambda>s'. \<exists>y. max_drawdown s' = Fin y \<and> x \<le> y"])
  show "\<exists>y. max_drawdown s = Fin y \<and> x \<le> y" using assms by simp
next
  fix s' :: state
  assume "\<exists>y. max_drawdown s' = Fin y \<and> x \<le> y"
  then obtain y where y: "max_drawdown s' = Fin y" "x \<le> y" by blast
  from calculate_max_drawdown_mono [OF y(1)] obtain z
    where z: "calculate_max_drawdown s' = Fin z" "y \<le> z" by blast
  from update_metrics_max_drawdown [of e dt s'] y z
  show "\<exists>y. max_drawdown (snd (update_metrics e dt s')) = Fin y \<and> x \<le> y"
    by auto
qed simp_all

lemma updates_max_drawdown_finite:
  assumes "max_drawdown s0 = Fin x0"
  shows "\<exists>x. max_drawdown (updates e calls s0) = Fin x"
proof (rule updates_induct [where P = "\<lambda>s. \<exists>x. max_drawdown s = Fin x"])
  show "\<exists>x. max_drawdown s0 = Fin x" using assms by simp
next
  fix s :: state and dt a b
  assume "\<exists>x. max_drawdown s = Fin x"
  then obtain x where "max_drawdown s = Fin x" by blast
  from update_max_drawdown_mono [OF this]
  show "\<exists>x. max_drawdown (snd (update e dt a b s)) = Fin x" by blast
qed

text \<open>
  C2. The maximum drawdown of a freshly constructed object is 0, and whatever calls of
  \<^verbatim>\<open>update\<close> have been made (raising or not), one more call leaves it a finite
  number that is at least what it was before the call.
\<close>

theorem max_drawdown_non_decreasing:
  assumes "init atd sp rf = Inr s0"
  shows "max_drawdown s0 = Fin 0 \<and>
         (\<exists>x y. max_drawdown (updates e calls s0) = Fin x \<and>
            max_drawdown (updates e (calls @ [(dt, a, b)]) s0) = Fin y \<and> x \<le> y)"
proof -
  have z: "max_drawdown s0 = Fin 0" using assms by (rule init_max_drawdown)
  from updates_max_drawdown_finite [OF z] obtain x
    where x: "max_drawdown (updates e calls s0) = Fin x" by blast
  from update_max_drawdown_mono [OF x] obtain y
    where "max_drawdown (snd (update e dt a b (updates e calls s0))) = Fin y" "x \<le> y"
    by blast
  then show ?thesis using z x by (auto simp: updates_snoc)
qed

theorem max_drawdown_witness:
  "init [0, 1440, 2880] demo_params None = Inr demo_state \<and>
   (max_drawdown demo_state = Fin 0 \<and>
    (\<exists>x y. max_drawdown (updates demo_env [(0, Fin 0, Fin 0)] demo_state) = Fin x \<and>
       max_drawdown (updates demo_env ([(0, Fin 0, Fin 0)] @ [(1440, Fin (- 1 / 2), Fin 0)])
         demo_state) = Fin y \<and> x \<le> y)) \<and>
   max_drawdown (updates demo_env [(0, Fin 0, Fin 0)] demo_state) = Fin 0 \<and>
   max_drawdown (updates demo_env ([(0, Fin 0, Fin 0)] @ [(1440, Fin (- 1 / 2), Fin 0)])
     demo_state) = Fin (1 / 2)"
proof -
  have a: "max_drawdown (updates demo_env [(0, Fin 0, Fin 0)] demo_state) = Fin 0"
    by (simp add: updates_def update_unfold demo_state_def demo_env_def)
  have b: "max_drawdown (updates demo_env ([(0, Fin 0, Fin 0)] @ [(1440, Fin (- 1 / 2), Fin 0)])
     demo_state) = Fin (1 / 2)"
    by (simp add: updates_def update_unfold demo_state_def demo_env_def exp_minus ln_div)
  note t = max_drawdown_non_decreasing [OF init_demo, of demo_env "[(0, Fin 0, Fin 0)]"
      1440 "Fin (- 1 / 2)" "Fin 0"]
  show ?thesis by (rule conjI [OF init_demo conjI [OF t conjI [OF a b]]])
qed

subsection \<open>Finite windows\<close>

lemma foldl_fadd_Fin: "foldl fadd (Fin c) (map Fin xs) = Fin (c + sum_list xs)"
  by (induction xs arbitrary: c) (simp_all add: add.assoc)

lemma fsum_Fin [simp]: "fsum (map Fin xs) = Fin (sum_list xs)"
  by (simp add: fsum_def foldl_fadd_Fin)

lemma np_mean_Fin: "xs \<noteq> [] \<Longrightarrow> np_mean (map Fin xs) = Fin (mean xs)"
  by (simp add: np_mean_def mean_def)

lemma values_of_observed: "values_of (observed w) = map Fin (map snd w)"
  by (simp add: values_of_def observed_def comp_def case_prod_beta)

lemma length_observed [simp]: "length (observed w) = length w"
  by (simp add: observed_def)

lemma centred_squares_Fin:
  "map (\<lambda>d. fmul d d) (map (\<lambda>v. fsub v (Fin m)) (map Fin xs)) =
     map Fin (map (\<lambda>x. (x - m)\<^sup>2) xs)"
  by (simp add: fsub_def power2_eq_square comp_def)

lemma np_std_Fin:
  assumes "xs \<noteq> []"
  shows "np_std 0 (map Fin xs) = Fin (population_std xs)"
proof -
  have nonneg: "0 \<le> sum_list (map (\<lambda>x. (x - mean xs)\<^sup>2) xs) / real (length xs)"
    by (intro divide_nonneg_nonneg sum_list_nonneg) auto
  show ?thesis
    using assms nonneg
    by (simp add: np_std_def np_mean_Fin centred_squares_Fin population_std_def
        del: map_map)
qed

text \<open>
  C1 (as amended). On a non-empty window of finite returns, \<^verbatim>\<open>calculate_volatility\<close>
  is the population standard deviation (\<^verbatim>\<open>ddof=0\<close>, the default of \<^verbatim>\<open>np.std\<close>)
  of the window times the square root of the constant 252, whatever the granularity.
\<close>

theorem calculate_volatility_population_std:
  assumes "w \<noteq> []"
  shows "calculate_volatility (observed w) = Fin (population_std (map snd w) * sqrt 252)"
proof -
  have "map snd w \<noteq> []" using assms by simp
  then have "np_std 0 (values_of (observed w)) = Fin (population_std (map snd w))"
    unfolding values_of_observed by (rule np_std_Fin)
  then show ?thesis by (simp add: calculate_volatility_def)
qed

lemma population_std_0_2: "population_std [0, 2] = 1"
  by (simp add: population_std_def mean_def)

lemma sample_std_0_2: "sample_std [0, 2] = sqrt 2"
  by (simp add: sample_std_def mean_def)

theorem calculate_volatility_witness:
  "[(0, 0), (1440, 2)] \<noteq> ([] :: (nat \<times> real) list) \<and>
   calculate_volatility (observed [(0, 0), (1440, 2)]) = Fin (sqrt 252)"
  using calculate_volatility_population_std [of "[(0, 0), (1440, 2)]"]
  by (simp add: population_std_0_2)

text \<open>
  C1 as stated fails: on the window of the two daily returns 0 and 2 the sample
  standard deviation (\<^verbatim>\<open>ddof=1\<close>) is \<open>sqrt 2\<close>, and the volatility is not
  \<open>sqrt 2 * sqrt 252\<close>.
\<close>

theorem calculate_volatility_not_sample_std:
  "calculate_volatility (observed [(0, 0), (1440, 2)]) \<noteq> Fin (sample_std [0, 2] * sqrt 252)"
proof -
  have v: "calculate_volatility (observed [(0, 0), (1440, 2)]) = Fin (sqrt 252)"
    using np_std_Fin [of "[0, 2]"]
    by (simp add: calculate_volatility_def values_of_observed population_std_0_2)
  have "sqrt 2 * sqrt 252 \<noteq> sqrt 252"
  proof
    assume "sqrt 2 * sqrt 252 = sqrt 252"
    then have "sqrt 2 = 1" by simp
    then show False by simp
  qed
  then show ?thesis by (simp add: v sample_std_0_2)
qed

subsection \<open>Beta\<close>

lemma centred_Fin:
  "map (\<lambda>v. fsub v (Fin m)) (map Fin xs) = map Fin (map (\<lambda>x. x - m) xs)"
  by (simp add: fsub_def)

lemma dot_Fin:
  "dot (map Fin us) (map Fin vs) = Fin (sum_list (map (\<lambda>(u, v). u * v) (zip us vs)))"
proof -
  have "map (\<lambda>(a, b). fmul a b) (zip (map Fin us) (map Fin vs)) =
          map Fin (map (\<lambda>(u, v). u * v) (zip us vs))"
    by (induction us vs rule: list_induct2') simp_all
  then show ?thesis unfolding dot_def by (simp only: fsum_Fin)
qed

lemma zip_centred:
  "map (\<lambda>(u, v). u * v) (zip (map (\<lambda>x. x - m) xs) (map (\<lambda>y. y - n) ys)) =
     map (\<lambda>(x, y). (x - m) * (y - n)) (zip xs ys)"
  by (induction xs ys rule: list_induct2') simp_all

lemma zip_self_squares:
  "map (\<lambda>(x, y). (x - m) * (y - m)) (zip ys ys) = map (\<lambda>y. (y - (m::real))\<^sup>2) ys"
  by (induction ys) (simp_all add: power2_eq_square)

lemma np_cov_entries:
  assumes "length xs = length ys" and "2 \<le> length xs"
  shows "np_cov 1 [map Fin xs, map Fin ys] ! 0 ! 1 = Fin (sample_covariance xs ys)"
    and "np_cov 1 [map Fin xs, map Fin ys] ! 1 ! 1 = Fin (sample_variance ys)"
proof -
  have ne: "xs \<noteq> []" "ys \<noteq> []" using assms by auto
  have fact: "real_of_int (int (length xs) - 1) = real (length xs) - 1"
    "real (length xs) - 1 \<noteq> 0" "real (length ys) - 1 = real (length xs) - 1"
    using assms by auto
  show "np_cov 1 [map Fin xs, map Fin ys] ! 0 ! 1 = Fin (sample_covariance xs ys)"
    using ne fact
    by (simp add: np_cov_def Let_def np_mean_Fin centred_Fin dot_Fin zip_centred
        sample_covariance_def del: map_map)
  show "np_cov 1 [map Fin xs, map Fin ys] ! 1 ! 1 = Fin (sample_variance ys)"
    using ne fact
    by (simp add: np_cov_def Let_def np_mean_Fin centred_Fin dot_Fin zip_centred
        zip_self_squares sample_variance_def del: map_map)
qed

text \<open>
  C4. With fewer than two observed strategy returns \<^verbatim>\<open>calculate_beta\<close> returns 0.0,
  whatever the values and whatever the benchmark view holds. With two or more observed
  pairs of finite returns it returns the sample covariance (\<^verbatim>\<open>ddof=1\<close>) of the two
  windows divided, as numpy floats are, by the sample variance (\<^verbatim>\<open>ddof=1\<close>) of the
  benchmark window: their quotient when that variance is not zero.
\<close>

theorem calculate_beta_sample_cov_over_var:
  assumes "algorithm_returns s = Some a"
  shows "(length a < 2 \<longrightarrow> calculate_beta s = Inr (Fin 0)) \<and>
         (a = observed wa \<and> benchmark_returns s = Some (observed wb) \<and>
          length wa = length wb \<and> 2 \<le> length wa \<longrightarrow>
            calculate_beta s =
              Inr (np_divide (Fin (sample_covariance (map snd wa) (map snd wb)))
                     (Fin (sample_variance (map snd wb)))) \<and>
            (sample_variance (map snd wb) \<noteq> 0 \<longrightarrow>
               calculate_beta s =
                 Inr (Fin (sample_covariance (map snd wa) (map snd wb) /
                           sample_variance (map snd wb)))))"
proof (intro conjI impI)
  assume "length a < 2"
  then show "calculate_beta s = Inr (Fin 0)" using assms by (simp add: calculate_beta_def)
next
  assume h: "a = observed wa \<and> benchmark_returns s = Some (observed wb) \<and>
          length wa = length wb \<and> 2 \<le> length wa"
  then have l: "length (map snd wa) = length (map snd wb)" "2 \<le> length (map snd wa)"
    by simp_all
  show b: "calculate_beta s =
              Inr (np_divide (Fin (sample_covariance (map snd wa) (map snd wb)))
                     (Fin (sample_variance (map snd wb))))"
    using assms h np_cov_entries [OF l]
    by (simp add: calculate_beta_def values_of_observed Let_def del: np_divide.simps)
  assume "sample_variance (map snd wb) \<noteq> 0"
  then show "calculate_beta s =
                 Inr (Fin (sample_covariance (map snd wa) (map snd wb) /
                           sample_variance (map snd wb)))"
    by (simp add: b)
qed

lemma sample_stats_demo:
  "sample_covariance [0, 2] [1, 2] = 1" "sample_variance [1, 2] = 1 / 2"
  by (simp_all add: sample_covariance_def sample_variance_def mean_def power2_eq_square)

theorem calculate_beta_witness:
  "calculate_beta (beta_demo [(0, 5)] [(0, 7)]) = Inr (Fin 0) \<and>
   calculate_beta (beta_demo [(0, 0), (1440, 2)] [(0, 1), (1440, 2)]) = Inr (Fin 2)"
  using calculate_beta_sample_cov_over_var
      [of "beta_demo [(0, 5)] [(0, 7)]" "observed [(0, 5)]"]
    calculate_beta_sample_cov_over_var
      [of "beta_demo [(0, 0), (1440, 2)] [(0, 1), (1440, 2)]" "observed [(0, 0), (1440, 2)]"
        "[(0, 0), (1440, 2)]" "[(0, 1), (1440, 2)]"]
  by (simp add: beta_demo_def sample_stats_demo)

subsection \<open>What an update raises, and where\<close>

lemma record_returns_raises: "fst (record_returns e dt a b s) \<noteq> Some Mismatch"
  by (simp add: record_returns_def Let_def split: option.splits)

lemma update_compounded_log_returns_raises:
  "fst (update_compounded_log_returns s) \<noteq> Some Mismatch"
  by (simp add: update_compounded_log_returns_def Let_def split: option.splits sum.splits)

lemma append_period_returns_raises: "fst (append_period_returns s) \<noteq> Some Mismatch"
  by (simp add: append_period_returns_def Let_def split: option.splits)

lemma append_volatility_raises: "fst (append_volatility s) \<noteq> Some Mismatch"
  by (simp add: append_volatility_def Let_def split: option.splits)

lemma lookup_treasury_raises: "fst (lookup_treasury e s) \<noteq> Some Mismatch"
  by (simp add: lookup_treasury_def Let_def split: option.splits)

lemma append_treasury_raises: "fst (append_treasury s) \<noteq> Some Mismatch"
  by (simp add: append_treasury_def Let_def split: option.splits)

lemma calculate_beta_raises: "calculate_beta s \<noteq> Inl Mismatch"
  by (simp add: calculate_beta_def Let_def split: option.splits)

lemma calculate_alpha_raises: "calculate_alpha e dt s \<noteq> Inl Mismatch"
  by (simp add: calculate_alpha_def split: option.splits)

lemma calculate_sharpe_raises: "calculate_sharpe e s \<noteq> Inl Mismatch"
  by (simp add: calculate_sharpe_def sharpe_ratio_def py_truediv_def split: option.splits)

lemma calculate_sortino_raises: "calculate_sortino e s \<noteq> Inl Mismatch"
  by (simp add: calculate_sortino_def split: option.splits)

lemma calculate_information_raises: "calculate_information e s \<noteq> Inl Mismatch"
  by (simp add: calculate_information_def split: option.splits)

lemma update_metrics_raises: "fst (update_metrics e dt s) \<noteq> Some Mismatch"
  using calculate_beta_raises calculate_alpha_raises calculate_sharpe_raises
    calculate_sortino_raises calculate_information_raises
  by (auto simp: update_metrics_def Let_def split: option.splits sum.splits)

lemma check_index_state [simp]: "snd (check_index s) = s"
  by (simp add: check_index_def split: option.splits)

lemma append_period_returns_ok:
  "append_period_returns s = (None, s') \<Longrightarrow>
     (\<exists>x. algorithm_period_returns s' = algorithm_period_returns s @ [x]) \<and>
     (\<exists>y. benchmark_period_returns s' = benchmark_period_returns s @ [y])"
  by (auto simp: append_period_returns_def Let_def split: option.splits)

text \<open>
  C6 (as amended). When \<^verbatim>\<open>update\<close> raises the data-consistency error, the call has
  already appended one element to each of the two period-return series (the check of
  line 185 comes after the appends of lines 180 to 183); the series appended after the
  check, the volatilities, the treasury period returns, the excess returns, Sortino
  and information, and the maximum drawdown are as before the call.
\<close>

theorem update_mismatch_after_period_returns:
  assumes "update e dt a b s = (Some Mismatch, s')"
  shows "(\<exists>x. algorithm_period_returns s' = algorithm_period_returns s @ [x]) \<and>
         (\<exists>y. benchmark_period_returns s' = benchmark_period_returns s @ [y]) \<and>
         algorithm_volatility s' = algorithm_volatility s \<and>
         benchmark_volatility s' = benchmark_volatility s \<and>
         treasury_period_returns s' = treasury_period_returns s \<and>
         excess_returns s' = excess_returns s \<and>
         sortino s' = sortino s \<and>
         information s' = information s \<and>
         max_drawdown s' = max_drawdown s"
proof (cases rule: update_cases [of e dt a b s])
  case (rec ex)
  then have False using assms record_returns_raises [of e dt a b s] by (metis fst_conv)
  then show ?thesis ..
next
  case (clr s1 ex)
  then have False using assms update_compounded_log_returns_raises [of s1] by (metis fst_conv)
  then show ?thesis ..
next
  case (per s1 s2 ex)
  then have False using assms append_period_returns_raises [of s2] by (metis fst_conv)
  then show ?thesis ..
next
  case (chk s1 s2 s3 ex)
  have e1: "s1 = snd (record_returns e dt a b s)" using chk(1) by simp
  have e2: "s2 = snd (update_compounded_log_returns s1)" using chk(2) by simp
  have e3: "s3 = snd (append_period_returns s2)" using chk(3) by simp
  have s': "s' = s3" using chk(5) assms check_index_state [of s3] by (metis snd_conv)
  from append_period_returns_ok [OF chk(3)]
  have "(\<exists>x. algorithm_period_returns s3 = algorithm_period_returns s @ [x]) \<and>
        (\<exists>y. benchmark_period_returns s3 = benchmark_period_returns s @ [y])"
    by (simp add: e1 e2)
  then show ?thesis unfolding s' by (simp add: e1 e2 e3)
next
  case (vol s1 s2 s3 s4 ex)
  then have False using assms append_volatility_raises [of s4] by (metis fst_conv)
  then show ?thesis ..
next
  case (look s1 s2 s3 s4 s5 ex)
  then have False using assms lookup_treasury_raises [of e s5] by (metis fst_conv)
  then show ?thesis ..
next
  case (app s1 s2 s3 s4 s5 s6 ex)
  then have False using assms append_treasury_raises [of s6] by (metis fst_conv)
  then show ?thesis ..
next
  case (met s1 s2 s3 s4 s5 s6 s7)
  then have False using assms update_metrics_raises [of e dt s7] by (metis fst_conv)
  then show ?thesis ..
qed

theorem update_mismatch_witness:
  "update demo_env 0 (Fin (1 / 100)) NaN demo_state =
     (Some Mismatch, snd (update demo_env 0 (Fin (1 / 100)) NaN demo_state)) \<and>
   (\<exists>x. algorithm_period_returns (snd (update demo_env 0 (Fin (1 / 100)) NaN demo_state)) =
      algorithm_period_returns demo_state @ [x]) \<and>
   algorithm_volatility (snd (update demo_env 0 (Fin (1 / 100)) NaN demo_state)) = []"
proof -
  have r: "update demo_env 0 (Fin (1 / 100)) NaN demo_state =
     (Some Mismatch, snd (update demo_env 0 (Fin (1 / 100)) NaN demo_state))"
    by (simp add: update_unfold demo_state_def demo_env_def)
  note t = update_mismatch_after_period_returns [OF r]
  have v: "algorithm_volatility demo_state = []" by (simp add: demo_state_def)
  show ?thesis using r t v by simp
qed

text \<open>
  C6 as stated fails: an update of the fresh object with a strategy return and a
  missing benchmark return raises the data-consistency error, and the two period-return
  series, empty before the call, have one element each after it.
\<close>

theorem update_mismatch_appends_period_returns:
  "fst (update demo_env 0 (Fin (1 / 100)) NaN demo_state) = Some Mismatch \<and>
   algorithm_period_returns demo_state = [] \<and>
   benchmark_period_returns demo_state = [] \<and>
   algorithm_period_returns (snd (update demo_env 0 (Fin (1 / 100)) NaN demo_state)) =
     [Fin (1 / 100)] \<and>
   benchmark_period_returns (snd (update demo_env 0 (Fin (1 / 100)) NaN demo_state)) =
     [Fin 0]"
  by (simp add: update_unfold demo_state_def demo_env_def)

subsection \<open>Compounded log returns\<close>

lemma update_compounded_log_returns_eq:
  "compounded_log_returns (snd (update e dt a b s)) =
     (if fst (record_returns e dt a b s) = None
      then compounded_log_returns
             (snd (update_compounded_log_returns (snd (record_returns e dt a b s))))
      else compounded_log_returns s)"
proof (cases rule: update_cases [of e dt a b s])
  case (rec ex)
  then show ?thesis by simp
next
  case (clr s1 ex)
  then show ?thesis by simp
next
  case (per s1 s2 ex)
  then show ?thesis by simp
next
  case (chk s1 s2 s3 ex)
  then show ?thesis by (simp add: append_period_returns_frameD [OF chk(3)])
next
  case (vol s1 s2 s3 s4 ex)
  then show ?thesis
    by (simp add: append_period_returns_frameD [OF vol(3)] check_index_frameD [OF vol(4)])
next
  case (look s1 s2 s3 s4 s5 ex)
  then show ?thesis
    by (simp add: append_period_returns_frameD [OF look(3)] check_index_frameD [OF look(4)]
        append_volatility_frameD [OF look(5)])
next
  case (app s1 s2 s3 s4 s5 s6 ex)
  then show ?thesis
    by (simp add: append_period_returns_frameD [OF app(3)] check_index_frameD [OF app(4)]
        append_volatility_frameD [OF app(5)] lookup_treasury_frameD [OF app(6)])
next
  case (met s1 s2 s3 s4 s5 s6 s7)
  then show ?thesis
    by (simp add: append_period_returns_frameD [OF met(3)] check_index_frameD [OF met(4)]
        append_volatility_frameD [OF met(5)] lookup_treasury_frameD [OF met(6)]
        append_treasury_frameD [OF met(7)])
qed

lemma map_of_setitem_same:
  "k \<in> fst ` set xs \<Longrightarrow>
     map_of (filter (\<lambda>(l, x). \<not> isnan x)
       (map (\<lambda>(l, x). if l = k then (l, Fin r) else (l, x)) xs)) k = Some (Fin r)"
proof (induction xs)
  case Nil
  then show ?case by simp
next
  case (Cons p xs)
  obtain l v where p: "p = (l, v)" by (cases p)
  show ?case
  proof (cases "l = k")
    case True
    then show ?thesis by (simp add: p)
  next
    case False
    then have "k \<in> fst ` set xs" using Cons.prems by (simp add: p)
    then show ?thesis using Cons.IH False by (simp add: p)
  qed
qed

lemma index_setitem_map:
  "map fst (map (\<lambda>(l, x). if l = k then (l, v) else (l, x)) xs) = map fst xs"
  by (induction xs) (simp_all add: case_prod_beta)

lemma setitem_entry:
  "(l, w) \<in> set (map (\<lambda>(l, x). if l = k then (l, v) else (l, x)) xs) \<Longrightarrow>
     (l = k \<and> w = v) \<or> (l, w) \<in> set xs"
proof (induction xs)
  case Nil
  then show ?case by simp
next
  case (Cons p xs)
  obtain l' v' where p: "p = (l', v')" by (cases p)
  show ?case
  proof (cases "l' = k")
    case True
    then show ?thesis using Cons by (simp add: p) blast
  next
    case False
    then show ?thesis using Cons by (simp add: p) blast
  qed
qed

lemma sorted_le_last:
  fixes x :: nat
  shows "sorted xs \<Longrightarrow> x \<in> set xs \<Longrightarrow> x \<le> last xs"
proof (induction xs)
  case Nil
  then show ?case by simp
next
  case (Cons y ys)
  show ?case
  proof (cases "ys = []")
    case True
    then show ?thesis using Cons.prems by simp
  next
    case False
    then have "last ys \<in> set ys" by simp
    then have "y \<le> last ys" using Cons.prems(1) by simp
    then show ?thesis using Cons False by auto
  qed
qed

lemma last_observed_label:
  fixes xs :: series and r :: real
  assumes "dt \<in> fst ` set xs"
    and "sorted (map fst xs)"
    and "\<forall>(l, v) \<in> set xs. \<not> isnan v \<longrightarrow> l \<le> dt"
  shows "filter (\<lambda>(l, x). \<not> isnan x)
           (map (\<lambda>(l, x). if l = dt then (l, Fin r) else (l, x)) xs) \<noteq> [] \<and>
         last (map fst (filter (\<lambda>(l, x). \<not> isnan x)
           (map (\<lambda>(l, x). if l = dt then (l, Fin r) else (l, x)) xs))) = dt"
proof -
  define zs where "zs = map (\<lambda>(l, x). if l = dt then (l, Fin r) else (l, x)) xs"
  define ys where "ys = filter (\<lambda>(l, x). \<not> isnan x) zs"
  obtain v0 where "(dt, v0) \<in> set xs" using assms(1) by auto
  then have "(dt, Fin r) \<in> set zs"
    unfolding zs_def set_map by (rule image_eqI [where x = "(dt, v0)", rotated]) simp
  then have mem: "(dt, Fin r) \<in> set ys" by (simp add: ys_def)
  then have ne: "ys \<noteq> []" by auto
  have "map fst zs = map fst xs" unfolding zs_def by (rule index_setitem_map)
  then have "sorted (map fst zs)" using assms(2) by simp
  then have srt: "sorted (map fst ys)" unfolding ys_def by (rule sorted_filter)
  have "fst (dt, Fin r) \<in> fst ` set ys" using mem by (rule imageI)
  then have "dt \<in> set (map fst ys)" by simp
  with srt have ge: "dt \<le> last (map fst ys)" by (rule sorted_le_last)
  obtain l w where lw: "last ys = (l, w)" by (cases "last ys")
  have in_ys: "(l, w) \<in> set ys" using ne lw last_in_set [of ys] by simp
  then have nn: "\<not> isnan w" and in_zs: "(l, w) \<in> set zs" by (simp_all add: ys_def)
  from setitem_entry [OF in_zs [unfolded zs_def]]
  have "l \<le> dt"
  proof
    assume "l = dt \<and> w = Fin r"
    then show ?thesis by simp
  next
    assume "(l, w) \<in> set xs"
    then show ?thesis using assms(3) nn by auto
  qed
  then have "last (map fst ys) \<le> dt" using ne lw by (simp add: last_map)
  then have "ys \<noteq> [] \<and> last (map fst ys) = dt" using ge ne by simp
  then show ?thesis unfolding ys_def zs_def .
qed

text \<open>
  C7. Take an object whose three return Series have the same sorted index, a timestamp
  on it with no observed strategy return after it (updates arrive in time order), and a
  strategy return \<open>r \<le> -1\<close>. The first two steps of \<^verbatim>\<open>update\<close> do not raise:
  \<^verbatim>\<open>math.log\<close> does, and the handler takes the fallback 0.0. After the call the
  compounded log returns are the old ones with one more entry: 0.0 on the first
  update, otherwise the previous entry plus 0.0.
\<close>

theorem update_total_loss_log_fallback:
  assumes "dt \<in> set (index (algorithm_returns_cont s))"
    and "index (annualized_mean_returns_cont s) = index (algorithm_returns_cont s)"
    and "index (benchmark_returns_cont s) = index (algorithm_returns_cont s)"
    and "sorted (index (algorithm_returns_cont s))"
    and "\<forall>(l, v) \<in> set (algorithm_returns_cont s). \<not> isnan v \<longrightarrow> l \<le> dt"
    and "r \<le> - 1"
  shows "fst (record_returns e dt (Fin r) b s) = None \<and>
         fst (update_compounded_log_returns (snd (record_returns e dt (Fin r) b s))) = None \<and>
         compounded_log_returns (snd (update e dt (Fin r) b s)) =
           compounded_log_returns s @
             [if compounded_log_returns s = [] then Fin 0
              else fadd (last (compounded_log_returns s)) (Fin 0)]"
proof -
  define arc where
    "arc = map (\<lambda>(l, x). if l = dt then (l, Fin r) else (l, x)) (algorithm_returns_cont s)"
  have in_idx: "dt \<in> fst ` set (algorithm_returns_cont s)"
    using assms(1) by (simp add: index_def)
  have set1: "setitem (series_enlarges e) (algorithm_returns_cont s) dt (Fin r) = Some arc"
    using assms(1) by (simp add: setitem_def arc_def)
  obtain amc where set2:
    "setitem (series_enlarges e) (annualized_mean_returns_cont s) dt
       (fmul (np_divide (fsum (values_of (valid arc))) (Fin (real (length (valid arc)))))
          (Fin 252)) = Some amc"
    using assms(1,2) by (simp add: setitem_def)
  obtain brc where set3:
    "setitem (series_enlarges e) (benchmark_returns_cont s) dt b = Some brc"
    using assms(1,3) by (simp add: setitem_def)
  define s1 where "s1 = snd (record_returns e dt (Fin r) b s)"
  have rr: "fst (record_returns e dt (Fin r) b s) = None"
    and obs: "algorithm_returns s1 = Some (valid arc)"
    and clr1: "compounded_log_returns s1 = compounded_log_returns s"
    using set1 set2 set3 by (simp_all add: s1_def record_returns_def Let_def)
  from last_observed_label [OF in_idx assms(4) [unfolded index_def] assms(5), of r]
  have ne: "valid arc \<noteq> []" and lst: "last (map fst (valid arc)) = dt"
    by (simp_all add: valid_def arc_def)
  have vv: "valid (valid arc) = valid arc" by (simp add: valid_def)
  have lvi: "last_valid_index (valid arc) = Some dt"
    using ne lst by (simp add: last_valid_index_def last_item_def index_def vv)
  have gi: "getitem (valid arc) dt = Some (Fin r)"
    using map_of_setitem_same [OF in_idx] by (simp add: getitem_def valid_def arc_def)
  have ucl: "update_compounded_log_returns s1 =
          (None, s1\<lparr>compounded_log_returns := compounded_log_returns s @
             [if compounded_log_returns s = [] then Fin 0
              else fadd (last (compounded_log_returns s)) (Fin 0)]\<rparr>)"
    using obs ne lvi gi clr1 assms(6)
    by (simp add: update_compounded_log_returns_def)
  show ?thesis
    using rr ucl by (simp add: update_compounded_log_returns_eq s1_def [symmetric])
qed

theorem update_total_loss_witness:
  "0 \<in> set (index (algorithm_returns_cont demo_state)) \<and>
   sorted (index (algorithm_returns_cont demo_state)) \<and>
   (- 1 :: real) \<le> - 1 \<and>
   fst (update_compounded_log_returns
          (snd (record_returns demo_env 0 (Fin (- 1)) (Fin 0) demo_state))) = None \<and>
   compounded_log_returns (snd (update demo_env 0 (Fin (- 1)) (Fin 0) demo_state)) = [Fin 0] \<and>
   compounded_log_returns (updates demo_env [(0, Fin 1, Fin 0)] demo_state) = [Fin (ln 2)] \<and>
   compounded_log_returns
     (snd (update demo_env 1440 (Fin (- 1)) (Fin 0)
        (updates demo_env [(0, Fin 1, Fin 0)] demo_state))) = [Fin (ln 2), Fin (ln 2)]"
proof -
  have first: "0 \<in> set (index (algorithm_returns_cont demo_state)) \<and>
      sorted (index (algorithm_returns_cont demo_state)) \<and>
      (- 1 :: real) \<le> - 1 \<and>
      fst (update_compounded_log_returns
          (snd (record_returns demo_env 0 (Fin (- 1)) (Fin 0) demo_state))) = None \<and>
      compounded_log_returns (snd (update demo_env 0 (Fin (- 1)) (Fin 0) demo_state)) = [Fin 0]"
    using update_total_loss_log_fallback
        [where dt = 0 and s = demo_state and r = "- 1" and b = "Fin 0" and e = demo_env]
    by (simp add: demo_state_def index_def)
  define s1 where "s1 = updates demo_env [(0, Fin 1, Fin 0)] demo_state"
  have f: "algorithm_returns_cont s1 = [(0, Fin 1), (1440, NaN), (2880, NaN)]"
    "index (annualized_mean_returns_cont s1) = [0, 1440, 2880]"
    "index (benchmark_returns_cont s1) = [0, 1440, 2880]"
    "compounded_log_returns s1 = [Fin (ln 2)]"
    by (simp_all add: s1_def updates_def update_unfold demo_state_def demo_env_def)
  have i: "index (algorithm_returns_cont s1) = [0, 1440, 2880]" by (simp add: f(1) index_def)
  have h1: "1440 \<in> set (index (algorithm_returns_cont s1))" by (simp add: i)
  have h2: "index (annualized_mean_returns_cont s1) = index (algorithm_returns_cont s1)"
    by (simp add: i f(2))
  have h3: "index (benchmark_returns_cont s1) = index (algorithm_returns_cont s1)"
    by (simp add: i f(3))
  have h4: "sorted (index (algorithm_returns_cont s1))" by (simp add: i)
  have h5: "\<forall>(l, v) \<in> set (algorithm_returns_cont s1). \<not> isnan v \<longrightarrow> l \<le> 1440"
    by (simp add: f(1))
  have h6: "(- 1 :: real) \<le> - 1" by simp
  have second: "compounded_log_returns (snd (update demo_env 1440 (Fin (- 1)) (Fin 0) s1)) =
      [Fin (ln 2), Fin (ln 2)]"
    using update_total_loss_log_fallback
        [OF h1 h2 h3 h4 h5 h6, where b = "Fin 0" and e = demo_env]
    by (simp add: f(4))
  show ?thesis using first second f(4) by (simp add: s1_def)
qed

subsection \<open>The per-update series\<close>

lemma update_compounded_log_returns_ok:
  "update_compounded_log_returns s = (None, s') \<Longrightarrow> algorithm_returns s = Some a \<Longrightarrow>
     a \<noteq> [] \<Longrightarrow>
     length (compounded_log_returns s') = Suc (length (compounded_log_returns s))"
  by (auto simp: update_compounded_log_returns_def Let_def split: option.splits if_splits)

lemma append_volatility_ok:
  "append_volatility s = (None, s') \<Longrightarrow>
     length (algorithm_volatility s') = Suc (length (algorithm_volatility s)) \<and>
     length (benchmark_volatility s') = Suc (length (benchmark_volatility s))"
  by (auto simp: append_volatility_def update_current_max_def Let_def split: option.splits)

lemma lookup_treasury_ok:
  "lookup_treasury e s = (None, s') \<Longrightarrow> \<exists>a. algorithm_returns s = Some a \<and> a \<noteq> []"
  by (auto simp: lookup_treasury_def last_item_def index_def Let_def
      split: option.splits if_splits)

lemma append_treasury_ok:
  "append_treasury s = (None, s') \<Longrightarrow>
     length (treasury_period_returns s') = Suc (length (treasury_period_returns s)) \<and>
     length (excess_returns s') = Suc (length (excess_returns s))"
  by (auto simp: append_treasury_def Let_def split: option.splits)

lemma update_metrics_ok:
  "update_metrics e dt s = (None, s') \<Longrightarrow>
     length (sortino s') = Suc (length (sortino s)) \<and>
     length (information s') = Suc (length (information s))"
  by (auto simp: update_metrics_def Let_def split: option.splits sum.splits)

lemma update_success_lengths:
  assumes "update e dt a b s = (None, s')"
  shows "series_lengths s' = map Suc (series_lengths s)"
proof (cases rule: update_cases [of e dt a b s])
  case (rec ex)
  then have False using assms by (metis fst_conv option.distinct(1))
  then show ?thesis ..
next
  case (clr s1 ex)
  then have False using assms by (metis fst_conv option.distinct(1))
  then show ?thesis ..
next
  case (per s1 s2 ex)
  then have False using assms by (metis fst_conv option.distinct(1))
  then show ?thesis ..
next
  case (chk s1 s2 s3 ex)
  then have False using assms by (metis fst_conv option.distinct(1))
  then show ?thesis ..
next
  case (vol s1 s2 s3 s4 ex)
  then have False using assms by (metis fst_conv option.distinct(1))
  then show ?thesis ..
next
  case (look s1 s2 s3 s4 s5 ex)
  then have False using assms by (metis fst_conv option.distinct(1))
  then show ?thesis ..
next
  case (app s1 s2 s3 s4 s5 s6 ex)
  then have False using assms by (metis fst_conv option.distinct(1))
  then show ?thesis ..
next
  case (met s1 s2 s3 s4 s5 s6 s7)
  have s': "update_metrics e dt s7 = (None, s')" using met(8) assms by simp
  note f1 = record_returns_frameD [OF met(1)]
  note f2 = update_compounded_log_returns_frameD [OF met(2)]
  note f3 = append_period_returns_frameD [OF met(3)]
  note f4 = check_index_frameD [OF met(4)]
  note f5 = append_volatility_frameD [OF met(5)]
  note f6 = lookup_treasury_frameD [OF met(6)]
  note f7 = append_treasury_frameD [OF met(7)]
  note f8 = update_metrics_frameD [OF s']
  from lookup_treasury_ok [OF met(6)] obtain obs
    where "algorithm_returns s5 = Some obs" "obs \<noteq> []" by blast
  then have "algorithm_returns s1 = Some obs"
    by (simp add: f2 f3 f4 f5)
  from update_compounded_log_returns_ok [OF met(2) this \<open>obs \<noteq> []\<close>]
  have c: "length (compounded_log_returns s2) = Suc (length (compounded_log_returns s1))" .
  from append_period_returns_ok [OF met(3)]
  have p: "length (algorithm_period_returns s3) = Suc (length (algorithm_period_returns s2))"
    "length (benchmark_period_returns s3) = Suc (length (benchmark_period_returns s2))"
    by auto
  note v = append_volatility_ok [OF met(5)]
  note t = append_treasury_ok [OF met(7)]
  note m = update_metrics_ok [OF s']
  have "length (algorithm_period_returns s') = Suc (length (algorithm_period_returns s))"
    using p by (simp add: f1 f2 f4 f5 f6 f7 f8)
  moreover
  have "length (benchmark_period_returns s') = Suc (length (benchmark_period_returns s))"
    using p by (simp add: f1 f2 f4 f5 f6 f7 f8)
  moreover
  have "length (algorithm_volatility s') = Suc (length (algorithm_volatility s))"
    using v by (simp add: f1 f2 f3 f4 f6 f7 f8)
  moreover
  have "length (benchmark_volatility s') = Suc (length (benchmark_volatility s))"
    using v by (simp add: f1 f2 f3 f4 f6 f7 f8)
  moreover
  have "length (treasury_period_returns s') = Suc (length (treasury_period_returns s))"
    using t by (simp add: f1 f2 f3 f4 f5 f6 f8)
  moreover
  have "length (excess_returns s') = Suc (length (excess_returns s))"
    using t by (simp add: f1 f2 f3 f4 f5 f6 f8)
  moreover
  have "length (sortino s') = Suc (length (sortino s))"
    using m by (simp add: f1 f2 f3 f4 f5 f6 f7)
  moreover
  have "length (information s') = Suc (length (information s))"
    using m by (simp add: f1 f2 f3 f4 f5 f6 f7)
  moreover
  have "length (compounded_log_returns s') = Suc (length (compounded_log_returns s))"
    using c by (simp add: f1 f3 f4 f5 f6 f7 f8)
  ultimately show ?thesis by (simp add: series_lengths_def)
qed

lemma run_lengths:
  "run e s calls = (None, s') \<Longrightarrow>
     series_lengths s' = map (\<lambda>n. n + length calls) (series_lengths s)"
proof (induction calls arbitrary: s)
  case Nil
  then show ?case by simp
next
  case (Cons c calls)
  obtain dt a b where c: "c = (dt, a, b)" by (cases c)
  obtain r s1 where u: "update e dt a b s = (r, s1)" by (cases "update e dt a b s")
  show ?case
  proof (cases r)
    case (Some ex)
    then show ?thesis using Cons.prems u by (simp add: c)
  next
    case None
    then have "run e s1 calls = (None, s')" using Cons.prems u by (simp add: c)
    from Cons.IH [OF this] update_success_lengths [OF u [unfolded None]]
    show ?thesis by (simp add: comp_def)
  qed
qed

lemma init_lengths: "init atd sp rf = Inr s0 \<Longrightarrow> series_lengths s0 = replicate 9 0"
  by (auto simp: init_def series_lengths_def Let_def eval_nat_numeral
      split: if_splits list.splits)

text \<open>
  C10. An update that returns without raising leaves each of the nine per-update
  series one element longer; so when a caller makes \<open>n\<close> calls on a freshly constructed
  object and none raises, each series has length \<open>n\<close>. No condition on the timestamps
  is involved: a timestamp passed again overwrites its entry of the return buffer, and
  the series grow all the same.
\<close>

theorem update_grows_each_series:
  "(update e dt a b s = (None, s') \<longrightarrow> series_lengths s' = map Suc (series_lengths s)) \<and>
   (init atd sp rf = Inr s0 \<and> run e s0 calls = (None, sn) \<longrightarrow>
      series_lengths sn = replicate 9 (length calls))"
proof (intro conjI impI)
  assume "update e dt a b s = (None, s')"
  then show "series_lengths s' = map Suc (series_lengths s)" by (rule update_success_lengths)
next
  assume "init atd sp rf = Inr s0 \<and> run e s0 calls = (None, sn)"
  then show "series_lengths sn = replicate 9 (length calls)"
    using run_lengths [of e s0 calls sn] init_lengths [of atd sp rf s0]
    by (simp add: eval_nat_numeral)
qed

theorem update_grows_witness:
  "init [0, 1440, 2880] demo_params None = Inr demo_state \<and>
   fst (run demo_env demo_state [(0, Fin 0, Fin 0), (0, Fin (1 / 2), Fin 0)]) = None \<and>
   series_lengths (snd (run demo_env demo_state [(0, Fin 0, Fin 0), (0, Fin (1 / 2), Fin 0)]))
     = replicate 9 2 \<and>
   num_trading_days (snd (run demo_env demo_state [(0, Fin 0, Fin 0), (0, Fin (1 / 2), Fin 0)]))
     = Some 1"
proof -
  have r: "fst (run demo_env demo_state [(0, Fin 0, Fin 0), (0, Fin (1 / 2), Fin 0)]) = None"
    and n: "num_trading_days
        (snd (run demo_env demo_state [(0, Fin 0, Fin 0), (0, Fin (1 / 2), Fin 0)])) = Some 1"
    by (simp_all add: update_unfold demo_state_def demo_env_def)
  have "run demo_env demo_state [(0, Fin 0, Fin 0), (0, Fin (1 / 2), Fin 0)] =
          (None, snd (run demo_env demo_state [(0, Fin 0, Fin 0), (0, Fin (1 / 2), Fin 0)]))"
    using r by (metis prod.collapse)
  with init_demo update_grows_each_series
    [of demo_env 0 "Fin 0" "Fin 0" demo_state demo_state "[0, 1440, 2880]" demo_params None
      demo_state "[(0, Fin 0, Fin 0), (0, Fin (1 / 2), Fin 0)]"
      "snd (run demo_env demo_state [(0, Fin 0, Fin 0), (0, Fin (1 / 2), Fin 0)])"]
  have "series_lengths
      (snd (run demo_env demo_state [(0, Fin 0, Fin 0), (0, Fin (1 / 2), Fin 0)])) =
        replicate 9 (length [(0 :: nat, Fin 0, Fin 0), (0, Fin (1 / 2), Fin 0)])"
    by blast
  then show ?thesis using r n init_demo by simp
qed

subsection \<open>The treasury cache\<close>

lemma init_minute: "init [0] minute_params None = Inr minute_state"
proof -
  have "[570..<Suc 572] = [570, 571, 572]" by (simp add: upt_conv_Cons)
  then show ?thesis
    by (simp add: minute_state_def init_def minute_params_def replace_hour_minute_def
        new_series_def get_minute_index_def Let_def)
qed

lemma cache_inv_cong:
  assumes "treasury_queries s' = treasury_queries s"
    and "daily_treasury s' = daily_treasury s"
    and "algorithm_returns_cont s' = algorithm_returns_cont s"
    and "algorithm_returns s' = algorithm_returns s"
  shows "cache_inv T s' = cache_inv T s"
  using assms by (simp add: cache_inv_def queried_days_def)

lemma cache_inv_mono: "cache_inv T s \<Longrightarrow> T \<subseteq> T' \<Longrightarrow> cache_inv T' s"
  unfolding cache_inv_def by (simp add: case_prod_beta) blast

lemma init_cache_inv:
  assumes "init atd sp rf = Inr s0"
  shows "cache_inv {} s0"
proof -
  have "treasury_queries s0 = []" "algorithm_returns s0 = None"
    "\<exists>g. algorithm_returns_cont s0 = new_series g"
    using assms by (auto simp: init_def Let_def split: if_splits list.splits)
  then show ?thesis by (auto simp: cache_inv_def queried_days_def new_series_def)
qed

lemma valid_labels:
  "set (index (valid xs)) \<subseteq> {l. \<exists>v. (l, v) \<in> set xs \<and> \<not> isnan v}"
  by (auto simp: index_def valid_def)

lemma setitem_entries:
  assumes "setitem enl s k v = Some s'" and "(l, w) \<in> set s'"
  shows "(l = k \<and> w = v) \<or> (l, w) \<in> set s"
proof -
  from setitem_cases [OF assms(1)] show ?thesis
  proof
    assume "k \<in> set (index s) \<and> s' = map (\<lambda>(l, x). if l = k then (l, v) else (l, x)) s"
    then show ?thesis using setitem_entry [of l w k v s] assms(2) by simp
  next
    assume "k \<notin> set (index s) \<and> enl \<and> s' = s @ [(k, v)]"
    then show ?thesis using assms(2) by auto
  qed
qed

lemma record_returns_touched:
  "(algorithm_returns_cont (snd (record_returns e dt a b s)) = algorithm_returns_cont s \<and>
    algorithm_returns (snd (record_returns e dt a b s)) = algorithm_returns s) \<or>
   (\<exists>arc. setitem (series_enlarges e) (algorithm_returns_cont s) dt a = Some arc \<and>
      algorithm_returns_cont (snd (record_returns e dt a b s)) = arc \<and>
      algorithm_returns (snd (record_returns e dt a b s)) = Some (valid arc))"
  by (simp add: record_returns_def Let_def split: option.splits)

lemma record_returns_cache_inv:
  assumes "cache_inv T s" and "dt \<in> T"
  shows "cache_inv T (snd (record_returns e dt a b s))"
proof -
  let ?s' = "snd (record_returns e dt a b s)"
  from record_returns_touched [of e dt a b s] show ?thesis
  proof
    assume "algorithm_returns_cont ?s' = algorithm_returns_cont s \<and>
      algorithm_returns ?s' = algorithm_returns s"
    then have "cache_inv T ?s' = cache_inv T s" by (intro cache_inv_cong) simp_all
    then show ?thesis using assms(1) by simp
  next
    assume "\<exists>arc. setitem (series_enlarges e) (algorithm_returns_cont s) dt a = Some arc \<and>
      algorithm_returns_cont ?s' = arc \<and> algorithm_returns ?s' = Some (valid arc)"
    then obtain arc where arc: "setitem (series_enlarges e) (algorithm_returns_cont s) dt a = Some arc"
      "algorithm_returns_cont ?s' = arc" "algorithm_returns ?s' = Some (valid arc)"
      by blast
    have old: "\<And>l v. (l, v) \<in> set (algorithm_returns_cont s) \<Longrightarrow> \<not> isnan v \<Longrightarrow> l \<in> T"
      using assms(1) by (auto simp: cache_inv_def)
    have new: "l \<in> T" if "(l, v) \<in> set arc" "\<not> isnan v" for l v
      using setitem_entries [OF arc(1) that(1)] that(2) old assms(2) by blast
    then have obs: "set (index (valid arc)) \<subseteq> T" using valid_labels [of arc] by blast
    have q: "queried_days ?s' = queried_days s" "daily_treasury ?s' = daily_treasury s"
      "treasury_queries ?s' = treasury_queries s"
      by (simp_all add: queried_days_def)
    have "\<forall>(l, v) \<in> set (algorithm_returns_cont ?s'). \<not> isnan v \<longrightarrow> l \<in> T"
      using new arc(2) by auto
    moreover have "\<forall>x. algorithm_returns ?s' = Some x \<longrightarrow> set (index x) \<subseteq> T"
      using obs arc(3) by simp
    ultimately show ?thesis
      using assms(1) unfolding cache_inv_def q by blast
  qed
qed


lemma getitem_in_index: "getitem s k = Some c \<Longrightarrow> k \<in> set (index s)"
  by (auto simp: getitem_def index_def dest: map_of_SomeD intro: rev_image_eqI)

lemma lookup_treasury_touched:
  assumes "source_answers e"
  shows "(treasury_queries (snd (lookup_treasury e s)) = treasury_queries s \<and>
          daily_treasury (snd (lookup_treasury e s)) = daily_treasury s) \<or>
         (\<exists>a cached tpr dtr.
            algorithm_returns s = Some a \<and> a \<noteq> [] \<and>
            getitem (daily_treasury s) (replace_hour_minute (last (index a))) = Some cached \<and>
            isnan cached \<and> \<not> isnan tpr \<and>
            setitem (series_enlarges e) (daily_treasury s) (replace_hour_minute (last (index a))) tpr =
              Some dtr \<and>
            treasury_queries (snd (lookup_treasury e s)) =
              treasury_queries s @ [(start_date s, last (index a))] \<and>
            daily_treasury (snd (lookup_treasury e s)) = dtr)"
proof (cases "algorithm_returns s")
  case None
  then show ?thesis by (simp add: lookup_treasury_def)
next
  case (Some a)
  show ?thesis
  proof (cases "index a = []")
    case True
    then show ?thesis using Some by (simp add: lookup_treasury_def last_item_def)
  next
    case ne: False
    then have li: "last_item (index a) = Some (last (index a))" by (simp add: last_item_def)
    have ane: "a \<noteq> []" using ne by (auto simp: index_def)
    let ?k = "replace_hour_minute (last (index a))"
    show ?thesis
    proof (cases "getitem (daily_treasury s) ?k")
      case None
      then show ?thesis using Some li by (simp add: lookup_treasury_def)
    next
      case c: (Some cached)
      show ?thesis
      proof (cases "isnan cached")
        case False
        then show ?thesis using Some li c by (simp add: lookup_treasury_def)
      next
        case True
        obtain tpr where tpr: "risk_choose_treasury e (start_date s) (last (index a)) = Some tpr"
          "\<not> isnan tpr"
          using assms unfolding source_answers_def by blast
        have "?k \<in> set (index (daily_treasury s))" using c by (rule getitem_in_index)
        then obtain dtr where dtr: "setitem (series_enlarges e) (daily_treasury s) ?k tpr = Some dtr"
          by (simp add: setitem_def)
        have "treasury_queries (snd (lookup_treasury e s)) =
              treasury_queries s @ [(start_date s, last (index a))]"
          "daily_treasury (snd (lookup_treasury e s)) = dtr"
          using Some li c True tpr dtr by (simp_all add: lookup_treasury_def Let_def)
        then show ?thesis using Some ane c True tpr(2) dtr by blast
      qed
    qed
  qed
qed

lemma lookup_treasury_cache_inv:
  assumes "cache_inv T s" and "source_answers e"
  shows "cache_inv T (snd (lookup_treasury e s))"
proof -
  let ?s' = "snd (lookup_treasury e s)"
  from lookup_treasury_touched [OF assms(2), of s] show ?thesis
  proof
    assume "treasury_queries ?s' = treasury_queries s \<and> daily_treasury ?s' = daily_treasury s"
    then have "cache_inv T ?s' = cache_inv T s" by (intro cache_inv_cong) simp_all
    then show ?thesis using assms(1) by simp
  next
    assume "\<exists>a cached tpr dtr.
            algorithm_returns s = Some a \<and> a \<noteq> [] \<and>
            getitem (daily_treasury s) (replace_hour_minute (last (index a))) = Some cached \<and>
            isnan cached \<and> \<not> isnan tpr \<and>
            setitem (series_enlarges e) (daily_treasury s) (replace_hour_minute (last (index a))) tpr =
              Some dtr \<and>
            treasury_queries ?s' = treasury_queries s @ [(start_date s, last (index a))] \<and>
            daily_treasury ?s' = dtr"
    then obtain a cached tpr dtr where h:
      "algorithm_returns s = Some a" "a \<noteq> []"
      "getitem (daily_treasury s) (replace_hour_minute (last (index a))) = Some cached"
      "isnan cached" "\<not> isnan tpr"
      "setitem (series_enlarges e) (daily_treasury s) (replace_hour_minute (last (index a))) tpr =
              Some dtr"
      "treasury_queries ?s' = treasury_queries s @ [(start_date s, last (index a))]"
      "daily_treasury ?s' = dtr"
      by blast
    let ?k = "replace_hour_minute (last (index a))"
    have inv: "\<And>d. d \<in> set (queried_days s) \<Longrightarrow>
        \<exists>v. getitem (daily_treasury s) d = Some v \<and> \<not> isnan v"
      "distinct (queried_days s)" "snd ` set (treasury_queries s) \<subseteq> T"
      "\<forall>(l, v) \<in> set (algorithm_returns_cont s). \<not> isnan v \<longrightarrow> l \<in> T"
      "set (index a) \<subseteq> T"
      using assms(1) h(1) unfolding cache_inv_def by blast+
    have fresh: "?k \<notin> set (queried_days s)"
    proof
      assume "?k \<in> set (queried_days s)"
      from inv(1) [OF this] h(3) h(4) show False by auto
    qed
    have qd: "queried_days ?s' = queried_days s @ [?k]"
      by (simp add: queried_days_def h(7))
    have i1: "\<exists>v. getitem (daily_treasury ?s') d = Some v \<and> \<not> isnan v"
      if "d \<in> set (queried_days ?s')" for d
    proof (cases "d = ?k")
      case True
      then show ?thesis using getitem_setitem_same [OF h(6)] h(5) h(8) by simp
    next
      case False
      then have "d \<in> set (queried_days s)" using that qd by simp
      from inv(1) [OF this] getitem_setitem_other [OF h(6) False] h(8)
      show ?thesis by simp
    qed
    have i2: "distinct (queried_days ?s')" using inv(2) fresh qd by simp
    have "index a \<noteq> []" using h(2) by (simp add: index_def)
    then have "last (index a) \<in> set (index a)" by simp
    then have "last (index a) \<in> T" using inv(5) by blast
    then have i3: "snd ` set (treasury_queries ?s') \<subseteq> T" using inv(3) h(7) by simp
    have i4: "\<forall>(l, v) \<in> set (algorithm_returns_cont ?s'). \<not> isnan v \<longrightarrow> l \<in> T"
      using inv(4) by simp
    have i5: "\<forall>x. algorithm_returns ?s' = Some x \<longrightarrow> set (index x) \<subseteq> T"
      using inv(5) h(1) by simp
    show ?thesis unfolding cache_inv_def using i1 i2 i3 i4 i5 by blast
  qed
qed

lemma update_cache_inv:
  assumes "cache_inv T s" and "source_answers e"
  shows "cache_inv (insert dt T) (snd (update e dt a b s))"
proof (rule update_preserves [where P = "cache_inv (insert dt T)"])
  show "cache_inv (insert dt T) s" using assms(1) by (rule cache_inv_mono) blast
next
  fix s' :: state
  assume "cache_inv (insert dt T) s'"
  then show "cache_inv (insert dt T) (snd (record_returns e dt a b s'))"
    by (rule record_returns_cache_inv) simp
next
  fix s' :: state
  assume "cache_inv (insert dt T) s'"
  then show "cache_inv (insert dt T) (snd (lookup_treasury e s'))"
    using assms(2) by (rule lookup_treasury_cache_inv)
next
  fix s' :: state
  assume i: "cache_inv (insert dt T) s'"
  have "cache_inv (insert dt T) (snd (update_compounded_log_returns s')) =
        cache_inv (insert dt T) s'"
    by (intro cache_inv_cong) simp_all
  then show "cache_inv (insert dt T) (snd (update_compounded_log_returns s'))" using i by simp
next
  fix s' :: state
  assume i: "cache_inv (insert dt T) s'"
  have "cache_inv (insert dt T) (snd (append_period_returns s')) = cache_inv (insert dt T) s'"
    by (intro cache_inv_cong) simp_all
  then show "cache_inv (insert dt T) (snd (append_period_returns s'))" using i by simp
next
  fix s' :: state
  assume i: "cache_inv (insert dt T) s'"
  then show "cache_inv (insert dt T) (snd (check_index s'))" by simp
next
  fix s' :: state
  assume i: "cache_inv (insert dt T) s'"
  have "cache_inv (insert dt T) (snd (append_volatility s')) = cache_inv (insert dt T) s'"
    by (intro cache_inv_cong) simp_all
  then show "cache_inv (insert dt T) (snd (append_volatility s'))" using i by simp
next
  fix s' :: state
  assume i: "cache_inv (insert dt T) s'"
  have "cache_inv (insert dt T) (snd (append_treasury s')) = cache_inv (insert dt T) s'"
    by (intro cache_inv_cong) simp_all
  then show "cache_inv (insert dt T) (snd (append_treasury s'))" using i by simp
next
  fix s' :: state
  assume i: "cache_inv (insert dt T) s'"
  have "cache_inv (insert dt T) (snd (update_metrics e dt s')) = cache_inv (insert dt T) s'"
    by (intro cache_inv_cong) simp_all
  then show "cache_inv (insert dt T) (snd (update_metrics e dt s'))" using i by simp
qed

lemma updates_cache_inv:
  assumes "cache_inv T s" and "source_answers e"
  shows "cache_inv (T \<union> fst ` set calls) (updates e calls s)"
proof (induction calls rule: rev_induct)
  case Nil
  then show ?case using assms(1) by (simp add: updates_def)
next
  case (snoc c calls)
  obtain dt a b where c: "c = (dt, a, b)" by (cases c)
  have "cache_inv (insert dt (T \<union> fst ` set calls))
          (snd (update e dt a b (updates e calls s)))"
    using snoc assms(2) by (rule update_cache_inv)
  then show ?case by (simp add: c updates_snoc Un_commute insert_commute)
qed

lemma update_query_only_on_miss:
  assumes "source_answers e"
  shows "treasury_queries (snd (update e dt a b s)) = treasury_queries s \<or>
         (\<exists>q. treasury_queries (snd (update e dt a b s)) = treasury_queries s @ [q] \<and>
            getitem (daily_treasury s) (replace_hour_minute (snd q)) = Some NaN)"
proof -
  have miss: "treasury_queries (snd (lookup_treasury e s5)) = treasury_queries s \<or>
         (\<exists>q. treasury_queries (snd (lookup_treasury e s5)) = treasury_queries s @ [q] \<and>
            getitem (daily_treasury s) (replace_hour_minute (snd q)) = Some NaN)"
    if "treasury_queries s5 = treasury_queries s" "daily_treasury s5 = daily_treasury s"
    for s5
  proof -
    from lookup_treasury_touched [OF assms, of s5] show ?thesis
    proof
      assume "treasury_queries (snd (lookup_treasury e s5)) = treasury_queries s5 \<and>
          daily_treasury (snd (lookup_treasury e s5)) = daily_treasury s5"
      then show ?thesis using that by simp
    next
      assume "\<exists>a cached tpr dtr.
            algorithm_returns s5 = Some a \<and> a \<noteq> [] \<and>
            getitem (daily_treasury s5) (replace_hour_minute (last (index a))) = Some cached \<and>
            isnan cached \<and> \<not> isnan tpr \<and>
            setitem (series_enlarges e) (daily_treasury s5)
                (replace_hour_minute (last (index a))) tpr = Some dtr \<and>
            treasury_queries (snd (lookup_treasury e s5)) =
              treasury_queries s5 @ [(start_date s5, last (index a))] \<and>
            daily_treasury (snd (lookup_treasury e s5)) = dtr"
      then obtain x cached where h:
        "getitem (daily_treasury s5) (replace_hour_minute (last (index x))) = Some cached"
        "isnan cached"
        "treasury_queries (snd (lookup_treasury e s5)) =
              treasury_queries s5 @ [(start_date s5, last (index x))]"
        by blast
      have "cached = NaN" using h(2) by (cases cached) simp_all
      then show ?thesis using h that by simp
    qed
  qed
  show ?thesis
  proof (cases rule: update_cases [of e dt a b s])
    case (rec ex)
    then show ?thesis by simp
  next
    case (clr s1 ex)
    then show ?thesis by (simp add: record_returns_frameD [OF clr(1)])
  next
    case (per s1 s2 ex)
    then show ?thesis
      by (simp add: record_returns_frameD [OF per(1)]
          update_compounded_log_returns_frameD [OF per(2)])
  next
    case (chk s1 s2 s3 ex)
    then show ?thesis
      by (simp add: record_returns_frameD [OF chk(1)]
          update_compounded_log_returns_frameD [OF chk(2)]
          append_period_returns_frameD [OF chk(3)])
  next
    case (vol s1 s2 s3 s4 ex)
    then show ?thesis
      by (simp add: record_returns_frameD [OF vol(1)]
          update_compounded_log_returns_frameD [OF vol(2)]
          append_period_returns_frameD [OF vol(3)] check_index_frameD [OF vol(4)])
  next
    case (look s1 s2 s3 s4 s5 ex)
    have "treasury_queries s5 = treasury_queries s" "daily_treasury s5 = daily_treasury s"
      by (simp_all add: record_returns_frameD [OF look(1)]
          update_compounded_log_returns_frameD [OF look(2)]
          append_period_returns_frameD [OF look(3)] check_index_frameD [OF look(4)]
          append_volatility_frameD [OF look(5)])
    from miss [OF this] show ?thesis using look(7) by simp
  next
    case (app s1 s2 s3 s4 s5 s6 ex)
    have "treasury_queries s5 = treasury_queries s" "daily_treasury s5 = daily_treasury s"
      by (simp_all add: record_returns_frameD [OF app(1)]
          update_compounded_log_returns_frameD [OF app(2)]
          append_period_returns_frameD [OF app(3)] check_index_frameD [OF app(4)]
          append_volatility_frameD [OF app(5)])
    from miss [OF this] show ?thesis using app(6) app(8) by simp
  next
    case (met s1 s2 s3 s4 s5 s6 s7)
    have "treasury_queries s5 = treasury_queries s" "daily_treasury s5 = daily_treasury s"
      by (simp_all add: record_returns_frameD [OF met(1)]
          update_compounded_log_returns_frameD [OF met(2)]
          append_period_returns_frameD [OF met(3)] check_index_frameD [OF met(4)]
          append_volatility_frameD [OF met(5)])
    from miss [OF this] show ?thesis
      using met(6) met(8) by (simp add: append_treasury_frameD [OF met(7)])
  qed
qed

lemma last_observed_label_written:
  fixes xs :: series
  assumes "dt \<in> fst ` set xs"
    and "sorted (map fst xs)"
    and "\<forall>(l, v) \<in> set xs. \<not> isnan v \<longrightarrow> l \<le> dt"
    and "\<not> isnan a"
  shows "filter (\<lambda>(l, x). \<not> isnan x)
           (map (\<lambda>(l, x). if l = dt then (l, a) else (l, x)) xs) \<noteq> [] \<and>
         last (map fst (filter (\<lambda>(l, x). \<not> isnan x)
           (map (\<lambda>(l, x). if l = dt then (l, a) else (l, x)) xs))) = dt"
proof -
  define zs where "zs = map (\<lambda>(l, x). if l = dt then (l, a) else (l, x)) xs"
  define ys where "ys = filter (\<lambda>(l, x). \<not> isnan x) zs"
  obtain v0 where "(dt, v0) \<in> set xs" using assms(1) by auto
  then have "(dt, a) \<in> set zs"
    unfolding zs_def set_map by (rule image_eqI [where x = "(dt, v0)", rotated]) simp
  then have mem: "(dt, a) \<in> set ys" using assms(4) by (simp add: ys_def)
  then have ne: "ys \<noteq> []" by auto
  have "map fst zs = map fst xs" unfolding zs_def by (rule index_setitem_map)
  then have "sorted (map fst zs)" using assms(2) by simp
  then have srt: "sorted (map fst ys)" unfolding ys_def by (rule sorted_filter)
  have "fst (dt, a) \<in> fst ` set ys" using mem by (rule imageI)
  then have "dt \<in> set (map fst ys)" by simp
  with srt have ge: "dt \<le> last (map fst ys)" by (rule sorted_le_last)
  obtain l w where lw: "last ys = (l, w)" by (cases "last ys")
  have in_ys: "(l, w) \<in> set ys" using ne lw last_in_set [of ys] by simp
  then have nn: "\<not> isnan w" and in_zs: "(l, w) \<in> set zs" by (simp_all add: ys_def)
  from setitem_entry [OF in_zs [unfolded zs_def]]
  have "l \<le> dt"
  proof
    assume "l = dt \<and> w = a"
    then show ?thesis by simp
  next
    assume "(l, w) \<in> set xs"
    then show ?thesis using assms(3) nn by auto
  qed
  then have "last (map fst ys) \<le> dt" using ne lw by (simp add: last_map)
  then have "ys \<noteq> [] \<and> last (map fst ys) = dt" using ge ne by simp
  then show ?thesis unfolding ys_def zs_def .
qed

lemma record_returns_observed:
  assumes "record_returns e dt a b s = (None, s1)"
    and "dt \<in> set (index (algorithm_returns_cont s))"
  shows "algorithm_returns s1 =
           Some (valid (map (\<lambda>(l, x). if l = dt then (l, a) else (l, x))
                          (algorithm_returns_cont s)))"
  using assms
  by (auto simp: record_returns_def Let_def setitem_present split: option.splits)

lemma lookup_treasury_hit:
  assumes "algorithm_returns s = Some obs" and "obs \<noteq> []"
    and "getitem (daily_treasury s) (replace_hour_minute (last (index obs))) = Some v"
    and "\<not> isnan v"
  shows "lookup_treasury e s = (None, s)"
proof -
  have "last_item (index obs) = Some (last (index obs))"
    using assms(2) by (simp add: last_item_def index_def)
  then show ?thesis using assms by (simp add: lookup_treasury_def)
qed

lemma append_treasury_hit:
  assumes "append_treasury s = (None, s')"
    and "algorithm_returns s = Some obs" and "obs \<noteq> []"
    and "getitem (daily_treasury s) (replace_hour_minute (last (index obs))) = Some v"
  shows "treasury_period_return s' = Some v \<and>
         treasury_period_returns s' = treasury_period_returns s @ [v] \<and>
         (\<exists>apr. last_item (algorithm_period_returns s) = Some apr \<and>
            excess_returns s' = excess_returns s @ [fsub apr v])"
proof -
  have "last_item (index obs) = Some (last (index obs))"
    using assms(3) by (simp add: last_item_def index_def)
  then show ?thesis
    using assms by (auto simp: append_treasury_def Let_def split: option.splits)
qed

lemma update_cache_hit:
  assumes "dt \<in> set (index (algorithm_returns_cont s))"
    and "sorted (index (algorithm_returns_cont s))"
    and "\<forall>(l, v) \<in> set (algorithm_returns_cont s). \<not> isnan v \<longrightarrow> l \<le> dt"
    and "\<not> isnan a"
    and "getitem (daily_treasury s) (replace_hour_minute dt) = Some v"
    and "\<not> isnan v"
  shows "treasury_queries (snd (update e dt a b s)) = treasury_queries s \<and>
         (fst (update e dt a b s) = None \<longrightarrow>
            treasury_period_return (snd (update e dt a b s)) = Some v \<and>
            treasury_period_returns (snd (update e dt a b s)) =
              treasury_period_returns s @ [v])"
proof -
  define obs where
    "obs = valid (map (\<lambda>(l, x). if l = dt then (l, a) else (l, x)) (algorithm_returns_cont s))"
  have in_idx: "dt \<in> fst ` set (algorithm_returns_cont s)"
    using assms(1) by (simp add: index_def)
  from last_observed_label_written [OF in_idx assms(2) [unfolded index_def] assms(3) assms(4)]
  have ne: "obs \<noteq> []" and lst: "last (index obs) = dt"
    by (simp_all add: obs_def valid_def index_def)
  have hit: "lookup_treasury e s5 = (None, s5)"
    if "algorithm_returns s5 = Some obs" "daily_treasury s5 = daily_treasury s" for s5
    using that ne lst assms(5,6) by (intro lookup_treasury_hit [of s5 obs v]) simp_all
  show ?thesis
  proof (cases rule: update_cases [of e dt a b s])
    case (rec ex)
    then show ?thesis by simp
  next
    case (clr s1 ex)
    then show ?thesis by (simp add: record_returns_frameD [OF clr(1)])
  next
    case (per s1 s2 ex)
    then show ?thesis
      by (simp add: record_returns_frameD [OF per(1)]
          update_compounded_log_returns_frameD [OF per(2)])
  next
    case (chk s1 s2 s3 ex)
    then show ?thesis
      by (simp add: record_returns_frameD [OF chk(1)]
          update_compounded_log_returns_frameD [OF chk(2)]
          append_period_returns_frameD [OF chk(3)])
  next
    case (vol s1 s2 s3 s4 ex)
    then show ?thesis
      by (simp add: record_returns_frameD [OF vol(1)]
          update_compounded_log_returns_frameD [OF vol(2)]
          append_period_returns_frameD [OF vol(3)] check_index_frameD [OF vol(4)])
  next
    case (look s1 s2 s3 s4 s5 ex)
    have "algorithm_returns s5 = Some obs"
      using record_returns_observed [OF look(1) assms(1)]
      by (simp add: obs_def update_compounded_log_returns_frameD [OF look(2)]
          append_period_returns_frameD [OF look(3)] check_index_frameD [OF look(4)]
          append_volatility_frameD [OF look(5)])
    moreover have "daily_treasury s5 = daily_treasury s"
      by (simp add: record_returns_frameD [OF look(1)]
          update_compounded_log_returns_frameD [OF look(2)]
          append_period_returns_frameD [OF look(3)] check_index_frameD [OF look(4)]
          append_volatility_frameD [OF look(5)])
    ultimately have "lookup_treasury e s5 = (None, s5)" by (rule hit)
    then show ?thesis using look(6) by simp
  next
    case (app s1 s2 s3 s4 s5 s6 ex)
    have o: "algorithm_returns s5 = Some obs"
      using record_returns_observed [OF app(1) assms(1)]
      by (simp add: obs_def update_compounded_log_returns_frameD [OF app(2)]
          append_period_returns_frameD [OF app(3)] check_index_frameD [OF app(4)]
          append_volatility_frameD [OF app(5)])
    have d: "daily_treasury s5 = daily_treasury s"
      "treasury_queries s5 = treasury_queries s"
      by (simp_all add: record_returns_frameD [OF app(1)]
          update_compounded_log_returns_frameD [OF app(2)]
          append_period_returns_frameD [OF app(3)] check_index_frameD [OF app(4)]
          append_volatility_frameD [OF app(5)])
    have "s6 = s5" using hit [OF o d(1)] app(6) by simp
    then show ?thesis using app(7) app(8) d by simp
  next
    case (met s1 s2 s3 s4 s5 s6 s7)
    have o: "algorithm_returns s5 = Some obs"
      using record_returns_observed [OF met(1) assms(1)]
      by (simp add: obs_def update_compounded_log_returns_frameD [OF met(2)]
          append_period_returns_frameD [OF met(3)] check_index_frameD [OF met(4)]
          append_volatility_frameD [OF met(5)])
    have d: "daily_treasury s5 = daily_treasury s"
      "treasury_queries s5 = treasury_queries s"
      "treasury_period_returns s5 = treasury_period_returns s"
      by (simp_all add: record_returns_frameD [OF met(1)]
          update_compounded_log_returns_frameD [OF met(2)]
          append_period_returns_frameD [OF met(3)] check_index_frameD [OF met(4)]
          append_volatility_frameD [OF met(5)])
    have s6: "s6 = s5" using hit [OF o d(1)] met(6) by simp
    have g: "getitem (daily_treasury s5) (replace_hour_minute (last (index obs))) = Some v"
      using assms(5) lst d(1) by simp
    from append_treasury_hit [OF met(7) [unfolded s6] o ne g]
    have "treasury_period_return s7 = Some v"
      "treasury_period_returns s7 = treasury_period_returns s @ [v]"
      using d(3) by simp_all
    moreover have "treasury_queries s7 = treasury_queries s"
      using d(2) s6 by (simp add: append_treasury_frameD [OF met(7)])
    ultimately show ?thesis using met(8) by simp
  qed
qed

text \<open>
  C3 (as amended). Take a treasury curve source that answers every query with a value
  that is not NaN: NaN marks a missing value of the cache, so a NaN answer caches
  nothing. After any sequence of \<^verbatim>\<open>update\<close> calls (raising or not) on a freshly
  constructed object, no calendar day has been queried twice, and every queried day is
  the day of an updated timestamp: the source was asked at most once per distinct
  calendar day among the updated timestamps. An update in time order with an observed
  strategy return, at a timestamp of the grid whose calendar day has a cached value,
  does not query the source, and when it returns, its treasury period return is the
  cached value, which it appends to the treasury period returns. Whatever the update,
  the source is asked only for a day whose cached value is missing.
\<close>

theorem treasury_cache_once_per_day:
  "(init atd sp rf = Inr s0 \<and> source_answers e \<longrightarrow>
      distinct (queried_days (updates e calls s0)) \<and>
      set (queried_days (updates e calls s0)) \<subseteq> replace_hour_minute ` fst ` set calls \<and>
      length (treasury_queries (updates e calls s0)) \<le>
        card (replace_hour_minute ` fst ` set calls)) \<and>
   (dt \<in> set (index (algorithm_returns_cont s)) \<and>
    sorted (index (algorithm_returns_cont s)) \<and>
    (\<forall>(l, w) \<in> set (algorithm_returns_cont s). \<not> isnan w \<longrightarrow> l \<le> dt) \<and>
    \<not> isnan a \<and>
    getitem (daily_treasury s) (replace_hour_minute dt) = Some v \<and> \<not> isnan v \<longrightarrow>
      treasury_queries (snd (update e dt a b s)) = treasury_queries s \<and>
      (fst (update e dt a b s) = None \<longrightarrow>
         treasury_period_return (snd (update e dt a b s)) = Some v \<and>
         treasury_period_returns (snd (update e dt a b s)) =
           treasury_period_returns s @ [v])) \<and>
   (source_answers e \<longrightarrow>
      treasury_queries (snd (update e dt a b s)) = treasury_queries s \<or>
      (\<exists>q. treasury_queries (snd (update e dt a b s)) = treasury_queries s @ [q] \<and>
         getitem (daily_treasury s) (replace_hour_minute (snd q)) = Some NaN))"
proof (intro conjI impI)
  assume h: "init atd sp rf = Inr s0 \<and> source_answers e"
  let ?s = "updates e calls s0"
  have "cache_inv ({} \<union> fst ` set calls) ?s"
    using init_cache_inv [of atd sp rf s0] h by (intro updates_cache_inv) simp_all
  then have d: "distinct (queried_days ?s)"
    and sub: "snd ` set (treasury_queries ?s) \<subseteq> fst ` set calls"
    by (simp_all add: cache_inv_def)
  show "distinct (queried_days ?s)" by (rule d)
  have "set (queried_days ?s) = replace_hour_minute ` snd ` set (treasury_queries ?s)"
    by (simp add: queried_days_def image_image)
  then show s: "set (queried_days ?s) \<subseteq> replace_hour_minute ` fst ` set calls"
    using sub by blast
  have "length (treasury_queries ?s) = length (queried_days ?s)"
    by (simp add: queried_days_def)
  also have "\<dots> = card (set (queried_days ?s))" using d by (simp add: distinct_card)
  also have "\<dots> \<le> card (replace_hour_minute ` fst ` set calls)"
    using s by (intro card_mono) simp_all
  finally show "length (treasury_queries ?s) \<le> card (replace_hour_minute ` fst ` set calls)" .
next
  assume h: "dt \<in> set (index (algorithm_returns_cont s)) \<and>
    sorted (index (algorithm_returns_cont s)) \<and>
    (\<forall>(l, w) \<in> set (algorithm_returns_cont s). \<not> isnan w \<longrightarrow> l \<le> dt) \<and>
    \<not> isnan a \<and>
    getitem (daily_treasury s) (replace_hour_minute dt) = Some v \<and> \<not> isnan v"
  then have hit: "treasury_queries (snd (update e dt a b s)) = treasury_queries s \<and>
         (fst (update e dt a b s) = None \<longrightarrow>
            treasury_period_return (snd (update e dt a b s)) = Some v \<and>
            treasury_period_returns (snd (update e dt a b s)) =
              treasury_period_returns s @ [v])"
    by (intro update_cache_hit) simp_all
  show "treasury_queries (snd (update e dt a b s)) = treasury_queries s" using hit by simp
  assume "fst (update e dt a b s) = None"
  then show "treasury_period_return (snd (update e dt a b s)) = Some v"
    and "treasury_period_returns (snd (update e dt a b s)) = treasury_period_returns s @ [v]"
    using hit by simp_all
next
  assume "source_answers e"
  then show "treasury_queries (snd (update e dt a b s)) = treasury_queries s \<or>
      (\<exists>q. treasury_queries (snd (update e dt a b s)) = treasury_queries s @ [q] \<and>
         getitem (daily_treasury s) (replace_hour_minute (snd q)) = Some NaN)"
    by (rule update_query_only_on_miss)
qed

theorem treasury_cache_witness:
  "init [0] minute_params None = Inr minute_state \<and>
   source_answers demo_env \<and>
   treasury_queries (updates demo_env [(570, Fin 0, Fin 0)] minute_state) = [(0, 570)] \<and>
   getitem (daily_treasury (updates demo_env [(570, Fin 0, Fin 0)] minute_state))
     (replace_hour_minute 571) = Some (Fin 0) \<and>
   fst (update demo_env 571 (Fin 0) (Fin 0)
          (updates demo_env [(570, Fin 0, Fin 0)] minute_state)) = None \<and>
   treasury_queries (snd (update demo_env 571 (Fin 0) (Fin 0)
      (updates demo_env [(570, Fin 0, Fin 0)] minute_state))) = [(0, 570)] \<and>
   treasury_period_returns (snd (update demo_env 571 (Fin 0) (Fin 0)
      (updates demo_env [(570, Fin 0, Fin 0)] minute_state))) = [Fin 0, Fin 0] \<and>
   length (treasury_queries
     (updates demo_env [(570, Fin 0, Fin 0), (571, Fin 0, Fin 0)] minute_state)) \<le>
     card (replace_hour_minute ` fst ` set [(570 :: nat, Fin 0, Fin 0), (571, Fin 0, Fin 0)])"
proof -
  define s1 where "s1 = updates demo_env [(570, Fin 0, Fin 0)] minute_state"
  have sa: "source_answers demo_env" by (simp add: source_answers_def demo_env_def)
  have f: "algorithm_returns_cont s1 = [(570, Fin 0), (571, NaN), (572, NaN)]"
    "daily_treasury s1 = [(0, Fin 0)]"
    "treasury_queries s1 = [(0, 570)]"
    "treasury_period_returns s1 = [Fin 0]"
    by (simp_all add: s1_def updates_def update_unfold minute_state_def demo_env_def)
  have ok: "fst (update demo_env 571 (Fin 0) (Fin 0) s1) = None"
    by (simp add: s1_def updates_def update_unfold minute_state_def demo_env_def)
  have g: "getitem (daily_treasury s1) (replace_hour_minute 571) = Some (Fin 0)"
    by (simp add: f getitem_def replace_hour_minute_def)
  have h: "571 \<in> set (index (algorithm_returns_cont s1)) \<and>
    sorted (index (algorithm_returns_cont s1)) \<and>
    (\<forall>(l, w) \<in> set (algorithm_returns_cont s1). \<not> isnan w \<longrightarrow> l \<le> 571) \<and>
    \<not> isnan (Fin 0) \<and>
    getitem (daily_treasury s1) (replace_hour_minute 571) = Some (Fin 0) \<and> \<not> isnan (Fin 0)"
    using g by (simp add: f index_def)
  note t = treasury_cache_once_per_day
    [of "[0]" minute_params None minute_state demo_env
      "[(570, Fin 0, Fin 0), (571, Fin 0, Fin 0)]" 571 s1 "Fin 0" "Fin 0" "Fin 0"]
  from t h ok have hit: "treasury_queries (snd (update demo_env 571 (Fin 0) (Fin 0) s1)) =
      treasury_queries s1"
    "treasury_period_returns (snd (update demo_env 571 (Fin 0) (Fin 0) s1)) =
      treasury_period_returns s1 @ [Fin 0]"
    by blast+
  from t init_minute sa have l: "length (treasury_queries
     (updates demo_env [(570, Fin 0, Fin 0), (571, Fin 0, Fin 0)] minute_state)) \<le>
     card (replace_hour_minute ` fst ` set [(570 :: nat, Fin 0, Fin 0), (571, Fin 0, Fin 0)])"
    by blast
  show ?thesis
    using init_minute sa f(3) g ok hit l unfolding s1_def [symmetric] by (simp add: f)
qed

text \<open>
  C3 as stated fails for a source that has no rate for a day: three updates in time
  order, none of which raises, the last two at the same timestamp of the second trading
  day, query the source three times, twice for that day.
\<close>

theorem treasury_nan_answer_queried_again:
  "fst (run nan_env demo_state [(0, Fin 0, Fin 0), (1440, Fin 0, Fin 0), (1440, Fin 0, Fin 0)])
     = None \<and>
   treasury_queries
     (snd (run nan_env demo_state
        [(0, Fin 0, Fin 0), (1440, Fin 0, Fin 0), (1440, Fin 0, Fin 0)])) =
     [(0, 0), (0, 1440), (0, 1440)] \<and>
   card (replace_hour_minute ` fst `
     set [(0 :: nat, Fin 0, Fin 0), (1440, Fin 0, Fin 0), (1440, Fin 0, Fin 0)]) = 2"
  by (simp add: update_unfold demo_state_def demo_env_def nan_env_def)

end
